theory Spec2Isabelle
  imports Main "HOL-Library.AList"
begin

section \<open>Strings\<close>

text \<open>
  Source text, module specifiers and paths are JavaScript strings, modelled as
  \<^typ>\<open>string\<close> (lists of 8-bit characters, so text in the first 256 code points). The
  helpers below are the \<^verbatim>\<open>String.prototype\<close> methods the two runners call.
\<close>

definition startsWith :: "string \<Rightarrow> string \<Rightarrow> bool" where
  "startsWith s p = (take (length p) s = p)"

definition endsWith :: "string \<Rightarrow> string \<Rightarrow> bool" where
  "endsWith s p = (length p \<le> length s \<and> drop (length s - length p) s = p)"

text \<open>\<^verbatim>\<open>s.replace(pat, rep)\<close> with a string pattern: only the first occurrence is replaced.\<close>

fun replace_first :: "string \<Rightarrow> string \<Rightarrow> string \<Rightarrow> string" where
  "replace_first pat rep [] = (if pat = [] then rep else [])"
| "replace_first pat rep (c # cs) =
     (if startsWith (c # cs) pat then rep @ drop (length pat) (c # cs)
      else c # replace_first pat rep cs)"

text \<open>\<^verbatim>\<open>s.split("/")\<close>: the pieces between separators, empty pieces included.\<close>

fun split_on :: "char \<Rightarrow> string \<Rightarrow> string list" where
  "split_on d [] = [[]]"
| "split_on d (c # cs) =
     (if c = d then [] # split_on d cs
      else (case split_on d cs of [] \<Rightarrow> [[c]] | p # ps \<Rightarrow> (c # p) # ps))"

text \<open>\<^verbatim>\<open>parts.join(sep)\<close>.\<close>

fun join :: "string \<Rightarrow> string list \<Rightarrow> string" where
  "join sep [] = []"
| "join sep [p] = p"
| "join sep (p # q # ps) = p @ sep @ join sep (q # ps)"

text \<open>
  \<^verbatim>\<open>s.lastIndexOf("/")\<close> followed by \<^verbatim>\<open>s.substring(0, i)\<close>: everything before the
  last separator; when there is none, \<^verbatim>\<open>lastIndexOf\<close> is \<^verbatim>\<open>-1\<close> and
  \<^verbatim>\<open>substring(0, -1)\<close> is the empty string.
\<close>

fun lastIndexOf :: "string \<Rightarrow> char \<Rightarrow> int" where
  "lastIndexOf [] d = -1"
| "lastIndexOf (c # cs) d =
     (let i = lastIndexOf cs d in if i \<ge> 0 then i + 1 else if c = d then 0 else -1)"

definition substring0 :: "string \<Rightarrow> int \<Rightarrow> string" where
  "substring0 s i = take (nat (max 0 i)) s"

text \<open>\<^verbatim>\<open>[...new Set(xs)]\<close>: duplicates removed, first occurrences kept in order.\<close>

fun dedupe :: "'a list \<Rightarrow> 'a list" where
  "dedupe [] = []"
| "dedupe (x # xs) = x # dedupe (filter (\<lambda>y. y \<noteq> x) xs)"

section \<open>Regular expressions\<close>

text \<open>
  The runners use regular expressions built from literals, the classes
  \<^verbatim>\<open>\s\<close>, \<^verbatim>\<open>\w\<close>, positive and negated bracket classes, and the greedy
  quantifiers \<^verbatim>\<open>+\<close> and \<^verbatim>\<open>*\<close> on a class. A pattern is a list of such items;
  a capture group is read off the pieces the items consumed.
\<close>

datatype cclass = Space | Word | AnyOf string | NoneOf string

definition whitespace :: string where
  "whitespace = [CHR 0x09, CHR 0x0A, CHR 0x0B, CHR 0x0C, CHR 0x0D, CHR 0x20, CHR 0xA0]"

definition word_chars :: string where
  "word_chars = ''abcdefghijklmnopqrstuvwxyzABCDEFGHIJKLMNOPQRSTUVWXYZ0123456789_''"

definition quotes :: string where
  "quotes = [CHR 0x22, CHR 0x27]"

fun in_class :: "cclass \<Rightarrow> char \<Rightarrow> bool" where
  "in_class Space c = (c \<in> set whitespace)"
| "in_class Word c = (c \<in> set word_chars)"
| "in_class (AnyOf s) c = (c \<in> set s)"
| "in_class (NoneOf s) c = (c \<notin> set s)"

datatype item = Lit string | One cclass | Plus cclass | Star cclass

type_synonym regex = "item list"

fun first_some :: "('a \<Rightarrow> 'b option) \<Rightarrow> 'a list \<Rightarrow> 'b option" where
  "first_some f [] = None"
| "first_some f (x # xs) = (case f x of Some y \<Rightarrow> Some y | None \<Rightarrow> first_some f xs)"

text \<open>
  One item matched at the start of the input, \<open>k\<close> matching what follows it. The result
  lists, item by item, the text each item consumed. A greedy quantifier tries the longest
  run first and gives characters back one at a time.
\<close>

fun item_match :: "item \<Rightarrow> (string \<Rightarrow> string list option) \<Rightarrow> string \<Rightarrow> string list option" where
  "item_match (Lit l) k s =
     (if startsWith s l then map_option ((#) l) (k (drop (length l) s)) else None)"
| "item_match (One c) k s =
     (case s of [] \<Rightarrow> None
      | x # xs \<Rightarrow> if in_class c x then map_option ((#) [x]) (k xs) else None)"
| "item_match (Plus c) k s =
     first_some (\<lambda>n. map_option ((#) (take n s)) (k (drop n s)))
       (rev [1 ..< Suc (length (takeWhile (in_class c) s))])"
| "item_match (Star c) k s =
     first_some (\<lambda>n. map_option ((#) (take n s)) (k (drop n s)))
       (rev [0 ..< Suc (length (takeWhile (in_class c) s))])"

text \<open>Backtracking match of a whole pattern at the start of the input.\<close>

primrec rmatch :: "regex \<Rightarrow> string \<Rightarrow> string list option" where
  "rmatch [] = (\<lambda>s. Some [])"
| "rmatch (i # r) = item_match i (rmatch r)"

text \<open>
  A scan with the \<^verbatim>\<open>g\<close> flag: left to right, the leftmost match at each point, the
  search resuming after the match. Unmatched characters are kept (\<open>Inl\<close>), matches are
  returned as their pieces (\<open>Inr\<close>).
\<close>

fun scan :: "regex \<Rightarrow> string \<Rightarrow> (char + string list) list" where
  "scan rx [] = (case rmatch rx [] of None \<Rightarrow> [] | Some ps \<Rightarrow> [Inr ps])"
| "scan rx (c # cs) =
     (case rmatch rx (c # cs) of
        None \<Rightarrow> Inl c # scan rx cs
      | Some ps \<Rightarrow>
          (if concat ps = [] then Inr ps # Inl c # scan rx cs
           else Inr ps # scan rx (drop (length (concat ps) - 1) cs)))"

text \<open>\<^verbatim>\<open>s.replace(/rx/g, f)\<close> with a replacement callback on the pieces of each match.\<close>

definition replace_g :: "regex \<Rightarrow> (string list \<Rightarrow> string) \<Rightarrow> string \<Rightarrow> string" where
  "replace_g rx f s = concat (map (case_sum (\<lambda>c. [c]) f) (scan rx s))"

text \<open>The matches of a \<^verbatim>\<open>while ((m = rx.exec(s)) !== null)\<close> loop.\<close>

definition exec_all :: "regex \<Rightarrow> string \<Rightarrow> string list list" where
  "exec_all rx s = concat (map (case_sum (\<lambda>c. []) (\<lambda>ps. [ps])) (scan rx s))"

section \<open>SwcRunner: import discovery and rewriting\<close>

text \<open>\<^verbatim>\<open>/from\s+["'](@\/[^"']+)["']/g\<close>; group 1 is pieces 3 and 4.\<close>

definition importRegex :: regex where
  "importRegex = [Lit ''from'', Plus Space, One (AnyOf quotes), Lit ''@/'',
     Plus (NoneOf quotes), One (AnyOf quotes)]"

definition extractImports :: "string \<Rightarrow> string list" where
  "extractImports code =
     dedupe (map (\<lambda>ps. case ps of [_, _, _, a, b, _] \<Rightarrow> a @ b | _ \<Rightarrow> [])
                 (exec_all importRegex code))"

text \<open>
  The alias step that each import rewrite of \<^verbatim>\<open>resolveImports\<close> performs on the
  specifier it captured.
\<close>

definition resolvedPath :: "string \<Rightarrow> string" where
  "resolvedPath importPath =
     (if startsWith importPath ''@/'' then
        (let r = ''/src/'' @ drop 2 importPath
         in if \<not> endsWith r ''.js'' \<and> \<not> endsWith r ''.jsx'' then r @ ''.js'' else r)
      else importPath)"

text \<open>\<^verbatim>\<open>names.replace(/\s+as\s+/g, ": ")\<close>.\<close>

definition convertedNames :: "string \<Rightarrow> string" where
  "convertedNames names = replace_g [Plus Space, Lit ''as'', Plus Space] (\<lambda>_. '': '') names"

text \<open>\<^verbatim>\<open>/import\s+(\w+)\s*,\s*\{([^}]+)\}\s+from\s+["']([^"']+)["']/g\<close>\<close>

definition rx_combined :: regex where
  "rx_combined = [Lit ''import'', Plus Space, Plus Word, Star Space, Lit '','', Star Space,
     Lit ''{'', Plus (NoneOf ''}''), Lit ''}'', Plus Space, Lit ''from'', Plus Space,
     One (AnyOf quotes), Plus (NoneOf quotes), One (AnyOf quotes)]"

text \<open>\<^verbatim>\<open>/import\s+\{([^}]+)\}\s+from\s+["']([^"']+)["']/g\<close>\<close>

definition rx_named :: regex where
  "rx_named = [Lit ''import'', Plus Space, Lit ''{'', Plus (NoneOf ''}''), Lit ''}'',
     Plus Space, Lit ''from'', Plus Space,
     One (AnyOf quotes), Plus (NoneOf quotes), One (AnyOf quotes)]"

text \<open>\<^verbatim>\<open>/import\s+(\w+)\s+from\s+["']([^"']+)["']/g\<close>\<close>

definition rx_default :: regex where
  "rx_default = [Lit ''import'', Plus Space, Plus Word, Plus Space, Lit ''from'', Plus Space,
     One (AnyOf quotes), Plus (NoneOf quotes), One (AnyOf quotes)]"

text \<open>\<^verbatim>\<open>/import\s+["']([^"']+)["']/g\<close>\<close>

definition rx_side_effect :: regex where
  "rx_side_effect = [Lit ''import'', Plus Space,
     One (AnyOf quotes), Plus (NoneOf quotes), One (AnyOf quotes)]"

text \<open>\<^verbatim>\<open>/export\s+const\s+(\w+)\s*=/g\<close>\<close>

definition rx_export_const :: regex where
  "rx_export_const = [Lit ''export'', Plus Space, Lit ''const'', Plus Space, Plus Word,
     Star Space, Lit ''='']"

text \<open>\<^verbatim>\<open>/export\s+function\s+(\w+)\s*\(/g\<close>\<close>

definition rx_export_function :: regex where
  "rx_export_function = [Lit ''export'', Plus Space, Lit ''function'', Plus Space, Plus Word,
     Star Space, Lit ''('']"

text \<open>\<^verbatim>\<open>/export\s+default\s+/g\<close>\<close>

definition rx_export_default :: regex where
  "rx_export_default = [Lit ''export'', Plus Space, Lit ''default'', Plus Space]"

text \<open>
  \<^verbatim>\<open>resolveImports(code, filePath)\<close>: seven global replacements in the source's order.
  The importing file's path is a parameter the body never reads.
\<close>

definition resolveImports :: "string \<Rightarrow> string \<Rightarrow> string" where
  "resolveImports code filePath =
    (let code1 = replace_g rx_combined
           (\<lambda>ps. case ps of
              [_, _, defaultName, _, _, _, _, names, _, _, _, _, _, importPath, _] \<Rightarrow>
                ''const '' @ defaultName @ '' = require(\"'' @ resolvedPath importPath
                  @ ''\");\<newline>const { '' @ convertedNames names @ '' } = '' @ defaultName
            | _ \<Rightarrow> []) code;
         code2 = replace_g rx_named
           (\<lambda>ps. case ps of
              [_, _, _, names, _, _, _, _, _, importPath, _] \<Rightarrow>
                ''const { '' @ convertedNames names @ '' } = require(\"''
                  @ resolvedPath importPath @ ''\")''
            | _ \<Rightarrow> []) code1;
         code3 = replace_g rx_default
           (\<lambda>ps. case ps of
              [_, _, varName, _, _, _, _, importPath, _] \<Rightarrow>
                ''const '' @ varName @ '' = require(\"'' @ resolvedPath importPath @ ''\")''
            | _ \<Rightarrow> []) code2;
         code4 = replace_g rx_side_effect
           (\<lambda>ps. case ps of
              [_, _, _, p, _] \<Rightarrow> ''require(\"'' @ p @ ''\")''
            | _ \<Rightarrow> []) code3;
         code5 = replace_g rx_export_const
           (\<lambda>ps. case ps of
              [_, _, _, _, name, _, _] \<Rightarrow> ''exports.'' @ name @ '' = ''
            | _ \<Rightarrow> []) code4;
         code6 = replace_g rx_export_function
           (\<lambda>ps. case ps of
              [_, _, _, _, name, _, _] \<Rightarrow> ''exports.'' @ name @ '' = function (''
            | _ \<Rightarrow> []) code5;
         code7 = replace_g rx_export_default (\<lambda>_. ''exports.default = '') code6
     in code7)"

section \<open>Shared state\<close>

text \<open>
  What a collaborator (a fetch, an engine call, a dynamic \<^verbatim>\<open>import()\<close>, the user's
  program) throws: an error object, which has a \<^verbatim>\<open>message\<close>, or a bare value such as a
  string, which has none.
\<close>

datatype thrown = ErrorObject string | Bare string

text \<open>
  What a method of a runner rejects with, one constructor per place it comes from: the three
  \<^verbatim>\<open>new Error(...)\<close> of the runners, and whatever a collaborator threw, which the runners
  log and rethrow. An \<^verbatim>\<open>async\<close> method that rejects returns \<open>Inl\<close> of the error.
\<close>

datatype error =
    NotInitialized string
  | BuildFailed string
  | NoRoot string
  | Thrown thrown

text \<open>\<^verbatim>\<open>error.message\<close>, which is \<^verbatim>\<open>undefined\<close> on a bare value.\<close>

fun message :: "error \<Rightarrow> string option" where
  "message (NotInitialized m) = Some m"
| "message (BuildFailed m) = Some m"
| "message (NoRoot m) = Some m"
| "message (Thrown (ErrorObject m)) = Some m"
| "message (Thrown (Bare v)) = None"

datatype level = LogL | WarnL | ErrorL

text \<open>An argument of a console call: a string, a caught error, or \<^verbatim>\<open>undefined\<close>.\<close>

datatype arg = Text string | Value error | Undefined

definition message_arg :: "error \<Rightarrow> arg" where
  "message_arg err = (case message err of Some m \<Rightarrow> Text m | None \<Rightarrow> Undefined)"

text \<open>What \<^verbatim>\<open>fetchSourceFile\<close> resolves to.\<close>

record file_data =
  contents :: string
  loader :: string

text \<open>The entry \<^verbatim>\<open>{ ...fileData, transformed }\<close> that SwcRunner keeps per module.\<close>

record swc_file = file_data +
  transformed :: string

text \<open>
  The sandboxed frame. The blob document is kept by its variable parts: the import map
  and the body of the module script.
\<close>

record iframe =
  importmap :: "(string \<times> string) list"
  script :: string
  style :: "(string \<times> string) list"
  sandbox :: "string list"

datatype node = Html string | Frame iframe

text \<open>
  Everything outside a runner instance: the module-level variables of the two runner
  modules (\<^verbatim>\<open>swc\<close>/\<^verbatim>\<open>initialized\<close> and \<^verbatim>\<open>esbuild\<close>/\<^verbatim>\<open>initialized\<close>), the
  console, the log of \<^verbatim>\<open>fetchSourceFile\<close> calls, the log of \<^verbatim>\<open>transformSync\<close>
  calls (by file name), the log of engine modules loaded by dynamic \<^verbatim>\<open>import()\<close>, and
  the children of the host page's \<^verbatim>\<open>#root\<close> element (\<open>None\<close> when the page has no
  such element).
\<close>

record world =
  swc :: bool
  swc_initialized :: bool
  esbuild :: bool
  esbuild_initialized :: bool
  console :: "(level \<times> arg list) list"
  fetches :: "(string \<times> string) list"
  transforms :: "string list"
  engine_loads :: "string list"
  root :: "node list option"

definition log :: "level \<Rightarrow> arg list \<Rightarrow> world \<Rightarrow> world" where
  "log l args w = w\<lparr>console := console w @ [(l, args)]\<rparr>"

text \<open>\<^verbatim>\<open>DOMTokenList.add\<close>: a token already present is not added again.\<close>

definition token_add :: "string \<Rightarrow> string list \<Rightarrow> string list" where
  "token_add t ts = (if t \<in> set ts then ts else ts @ [t])"

text \<open>Decimal rendering of a number inside a template literal.\<close>

fun decimal :: "nat \<Rightarrow> string" where
  "decimal n =
     (if n < 10 then [''0123456789'' ! n] else decimal (n div 10) @ [''0123456789'' ! (n mod 10)])"

declare decimal.simps [simp del]

record options =
  entryPoint :: string
  baseUrl :: string
  clearCache :: bool
  minify :: bool
  sourcemap :: bool

text \<open>The defaults of the options destructuring in \<^verbatim>\<open>compile\<close>.\<close>

definition default_options :: options where
  "default_options = \<lparr>entryPoint = ''@/entry'', baseUrl = ''/src'', clearCache = False,
     minify = False, sourcemap = False\<rparr>"

section \<open>SwcRunner\<close>

record swc_runner =
  fileCache :: "(string \<times> swc_file) list"
  transformedFiles :: "(string \<times> string) list"

text \<open>\<^verbatim>\<open>new SwcRunner()\<close>\<close>

definition new_SwcRunner :: swc_runner where
  "new_SwcRunner = \<lparr>fileCache = [], transformedFiles = []\<rparr>"

text \<open>
  The collaborators that are not part of the runner: the source provider
  \<^verbatim>\<open>fetchSourceFile(modulePath, baseUrl)\<close>, the engine's \<^verbatim>\<open>transformSync(code, filename)\<close>,
  and the outcomes of loading and initialising the engine module.
\<close>

record swc_env =
  fetchSourceFile :: "string \<Rightarrow> string \<Rightarrow> thrown + file_data"
  transformSync :: "string \<Rightarrow> string \<Rightarrow> thrown + string"
  import_swc :: "thrown + unit"
  initSwc :: "thrown + unit"

type_synonym swc_state = "swc_runner \<times> world"

definition swc_url :: string where
  "swc_url = ''https://esm.sh/@swc/wasm-web''"

definition initialize_swc :: "swc_env \<Rightarrow> world \<Rightarrow> (error + unit) \<times> world" where
  "initialize_swc e w =
     (if swc_initialized w then (Inr (), w)
      else
        (let w1 = w\<lparr>engine_loads := engine_loads w @ [swc_url]\<rparr> in
         case import_swc e of
           Inl x \<Rightarrow> (Inl (Thrown x), log ErrorL [Text ''[swc] Init error:'', Value (Thrown x)] w1)
         | Inr _ \<Rightarrow>
             (case initSwc e of
                Inl x \<Rightarrow>
                  (Inl (Thrown x), log ErrorL [Text ''[swc] Init error:'', Value (Thrown x)] w1)
              | Inr _ \<Rightarrow>
                  (Inr (), log LogL [Text ''[swc] Initialized'']
                             (w1\<lparr>swc := True, swc_initialized := True\<rparr>)))))"

definition externals :: "string list" where
  "externals = [''react'', ''react-dom'', ''react/jsx-runtime'', ''react-dom/client'']"

definition isExternal :: "string \<Rightarrow> bool" where
  "isExternal path = list_ex (\<lambda>ext. path = ext \<or> startsWith path (ext @ ''/'')) externals"

text \<open>
  \<^verbatim>\<open>transformFile\<close>: the engine call inside a \<^verbatim>\<open>try\<close> that logs and rethrows. With the
  module variable \<^verbatim>\<open>swc\<close> still \<^verbatim>\<open>null\<close> the property access throws.
\<close>

definition transformFile :: "swc_env \<Rightarrow> string \<Rightarrow> string \<Rightarrow> world \<Rightarrow> (error + string) \<times> world" where
  "transformFile e src filePath w =
     (if swc w then
        (let w1 = w\<lparr>transforms := transforms w @ [filePath]\<rparr> in
         case transformSync e src filePath of
           Inr out \<Rightarrow> (Inr out, w1)
         | Inl x \<Rightarrow>
             (Inl (Thrown x),
              log ErrorL [Text (''[swc] Transform error in '' @ filePath @ '':''), Value (Thrown x)] w1))
      else
        (let x = ErrorObject ''Cannot read properties of null (reading 'transformSync')''
         in (Inl (Thrown x),
             log ErrorL [Text (''[swc] Transform error in '' @ filePath @ '':''), Value (Thrown x)] w)))"

definition loadAndTransformFile ::
  "swc_env \<Rightarrow> string \<Rightarrow> string \<Rightarrow> swc_state \<Rightarrow> (error + string) \<times> swc_state" where
  "loadAndTransformFile e modulePath base = (\<lambda>(r, w).
     (case map_of (transformedFiles r) modulePath of
        Some t \<Rightarrow> (Inr t, r, w)
      | None \<Rightarrow>
          (let w1 = w\<lparr>fetches := fetches w @ [(modulePath, base)]\<rparr> in
           case fetchSourceFile e modulePath base of
             Inl x \<Rightarrow>
               (Inl (Thrown x), r,
                log ErrorL [Text (''[swc] Load error: '' @ modulePath), Value (Thrown x)] w1)
           | Inr fileData \<Rightarrow>
               (case transformFile e (contents fileData) modulePath w1 of
                  (Inl err, w2) \<Rightarrow>
                    (Inl err, r,
                     log ErrorL [Text (''[swc] Load error: '' @ modulePath), Value err] w2)
                | (Inr t, w2) \<Rightarrow>
                    (Inr t,
                     r\<lparr>transformedFiles := AList.update modulePath t (transformedFiles r),
                       fileCache := AList.update modulePath
                         \<lparr>contents = contents fileData, loader = loader fileData,
                          transformed = t\<rparr> (fileCache r)\<rparr>,
                     log LogL [Text (''[swc] Transformed: '' @ modulePath)] w2)))))"

text \<open>The \<^verbatim>\<open>for\<close> loop of \<^verbatim>\<open>transformDependencies\<close>, with its \<^verbatim>\<open>try\<close>/\<^verbatim>\<open>catch\<close>.\<close>

fun loadEach :: "swc_env \<Rightarrow> string list \<Rightarrow> string \<Rightarrow> swc_state \<Rightarrow> swc_state" where
  "loadEach e [] base st = st"
| "loadEach e (importPath # rest) base st =
     (case loadAndTransformFile e importPath base st of
        (Inr _, st') \<Rightarrow> loadEach e rest base st'
      | (Inl err, r', w') \<Rightarrow>
          loadEach e rest base
            (r', log WarnL [Text (''[swc] Could not transform dependency '' @ importPath @ '':''),
                            message_arg err] w'))"

definition transformDependencies :: "swc_env \<Rightarrow> string \<Rightarrow> string \<Rightarrow> swc_state \<Rightarrow> swc_state" where
  "transformDependencies e src base st = loadEach e (extractImports src) base st"

record build_result =
  code :: string
  moduleMap :: "(string \<times> string) list"
  entryPoint_out :: string
  warnings :: "string list"

text \<open>
  The key under which \<^verbatim>\<open>compile\<close> registers a cached module:
  \<^verbatim>\<open>`/src/${path.replace("@/", "")}`\<close>, with \<^verbatim>\<open>.js\<close> appended unless the path ends in
  \<^verbatim>\<open>.js\<close> or \<^verbatim>\<open>.jsx\<close>.
\<close>

definition entryPathResolved :: "string \<Rightarrow> string" where
  "entryPathResolved path =
     (let p = ''/src/'' @ replace_first ''@/'' [] path
      in if \<not> endsWith p ''.js'' \<and> \<not> endsWith p ''.jsx'' then p @ ''.js'' else p)"

definition compile_swc ::
  "swc_env \<Rightarrow> options \<Rightarrow> swc_state \<Rightarrow> (error + build_result) \<times> swc_state" where
  "compile_swc e opts = (\<lambda>(r, w).
     if \<not> swc_initialized w then
       (Inl (NotInitialized ''SwcRunner not initialized. Call initialize() first.''), r, w)
     else
       (let r0 = (if clearCache opts then r\<lparr>fileCache := [], transformedFiles := []\<rparr> else r);
            w0 = log LogL [Text (''[swc] Building: '' @ entryPoint opts)] w
        in case loadAndTransformFile e (entryPoint opts) (baseUrl opts) (r0, w0) of
             (Inl err, r1, w1) \<Rightarrow>
               (Inl err, r1, log ErrorL [Text ''[swc] Build error:'', Value err] w1)
           | (Inr t, st1) \<Rightarrow>
               (case transformDependencies e t (baseUrl opts) st1 of
                  (r2, w2) \<Rightarrow>
                    (let t' = resolveImports t (entryPoint opts);
                         key = entryPathResolved (entryPoint opts);
                         mm = fold (\<lambda>(path, c). AList.update (entryPathResolved path)
                                                    (resolveImports c path))
                                   (transformedFiles r2) [(key, t')]
                     in (Inr \<lparr>code = t', moduleMap = mm, entryPoint_out = key, warnings = []\<rparr>,
                         r2,
                         log LogL [Text (''[swc] Build complete: '' @ decimal (length t')
                                     @ '' bytes ('' @ decimal (length mm) @ '' modules)'')] w2)))))"


subsection \<open>The emitted bundle and the sandboxed frame\<close>

text \<open>The registry preamble that \<^verbatim>\<open>compileAndRun\<close> emits first.\<close>

definition registry_preamble :: "string list" where
  "registry_preamble =
    [''// SWC Module Bundle'',
     ''const __modules__ = {};'',
     ''const __cache__ = {};'',
     '''',
     ''function __require__(path) {'',
     ''  if (__cache__[path]) return __cache__[path];'',
     ''  const module = { exports: {} };'',
     ''  const fn = __modules__[path];'',
     ''  if (!fn) throw new Error(\"Module not found: \" + path);'',
     ''  fn(module, module.exports, __require__);'',
     ''  __cache__[path] = module.exports;'',
     ''  return module.exports;'',
     ''}'']"

text \<open>The four lines pushed for one entry of the module map.\<close>

definition module_lines :: "string \<times> string \<Rightarrow> string list" where
  "module_lines = (\<lambda>(path, moduleCode).
     [''__modules__['' @ [CHR 0x27] @ path @ [CHR 0x27] @ ''] = function(module, exports, require) {'',
      moduleCode,
      ''};'',
      ''''])"

text \<open>The external packages named in the emitted preloader.\<close>

definition externalPackages :: "string list" where
  "externalPackages = [''react'', ''react/jsx-runtime'', ''react-dom'', ''react-dom/client'']"

text \<open>The preloader and the entry invocation, as emitted for the entry key.\<close>

definition preload_lines :: "string \<Rightarrow> string list" where
  "preload_lines entryKey =
    ['''',
     ''// Preload external packages from import map'',
     ''const externalPackages = ['',
     ''  'react','',
     ''  'react/jsx-runtime','',
     ''  'react-dom','',
     ''  'react-dom/client'' @ [CHR 0x27],
     ''];'',
     '''',
     ''// Load external packages into cache before executing modules'',
     ''Promise.all(externalPackages.map(pkg =>'',
     ''  import(pkg).then(m => {'',
     ''    __cache__[pkg] = m;'',
     ''    console.log(`[swc] Preloaded: ${pkg}`);'',
     ''  })'',
     '')).then(() => {'',
     ''  // Execute entry point'',
     ''  try {'',
     ''    __require__('' @ [CHR 0x27] @ entryKey @ [CHR 0x27] @ '');'',
     ''    console.log('[swc] App executed successfully');'',
     ''  } catch(err) {'',
     ''    console.error('[swc] Execution error:', err);'',
     ''    document.getElementById('root').innerHTML = '<pre style=\"color:red\">' + err.message + '</pre>';'',
     ''  }'',
     ''}).catch(err => {'',
     ''  console.error('[swc] Failed to preload packages:', err);'',
     ''  document.getElementById('root').innerHTML = '<pre style=\"color:red\">Failed to load dependencies: ' + err.message + '</pre>';'',
     ''});'']"

definition bundledCode :: "(string \<times> string) list \<Rightarrow> string \<Rightarrow> string" where
  "bundledCode mm entryKey =
     join [CHR 0x0A] (registry_preamble @ concat (map module_lines mm) @ preload_lines entryKey)"

text \<open>The import map of the frame document, the same for both runners.\<close>

definition import_map :: "(string \<times> string) list" where
  "import_map =
    [(''react'', ''https://esm.sh/react@19.2.3''),
     (''react/jsx-runtime'', ''https://esm.sh/react@19.2.3/jsx-runtime''),
     (''react-dom'', ''https://esm.sh/react-dom@19.2.3''),
     (''react-dom/client'', ''https://esm.sh/react-dom@19.2.3/client'')]"

text \<open>
  \<^verbatim>\<open>document.createElement("iframe")\<close> pointed at the blob of the document, styled, and
  given its sandbox tokens one \<^verbatim>\<open>sandbox.add\<close> at a time. Both runners build the frame
  with the same statements.
\<close>

definition make_iframe :: "string \<Rightarrow> iframe" where
  "make_iframe body =
     (let f0 = \<lparr>importmap = import_map, script = body, style = [], sandbox = []\<rparr>;
          f1 = f0\<lparr>style := [(''border'', ''none''), (''width'', ''100%''), (''height'', ''100%''),
                            (''minHeight'', ''400px'')]\<rparr>;
          f2 = f1\<lparr>sandbox := token_add ''allow-scripts'' (sandbox f1)\<rparr>;
          f3 = f2\<lparr>sandbox := token_add ''allow-popups'' (sandbox f2)\<rparr>;
          f4 = f3\<lparr>sandbox := token_add ''allow-forms'' (sandbox f3)\<rparr>
      in f4)"

definition compileAndRun_swc ::
  "swc_env \<Rightarrow> options \<Rightarrow> swc_state \<Rightarrow> (error + string) \<times> swc_state" where
  "compileAndRun_swc e opts st =
     (case compile_swc e opts st of
        (Inl err, st') \<Rightarrow> (Inl err, st')
      | (Inr res, r', w') \<Rightarrow>
          (case root w' of
             None \<Rightarrow> (Inl (NoRoot ''No root element found''), r', w')
           | Some _ \<Rightarrow>
               (let cleared = [];
                    frame = make_iframe (bundledCode (moduleMap res) (entryPoint_out res));
                    w2 = w'\<lparr>root := Some (cleared @ [Frame frame])\<rparr>
                in (Inr (code res), r', log LogL [Text ''[swc] Execution complete in iframe''] w2))))"


section \<open>EsbuildRunner\<close>

subsection \<open>The resolve hook\<close>

text \<open>
  The loop of \<^verbatim>\<open>normalizePath\<close> over the pieces of the path: \<^verbatim>\<open>..\<close> pops the last
  segment kept so far (\<^verbatim>\<open>pop\<close> on an empty array does nothing), \<^verbatim>\<open>.\<close> and empty
  pieces are dropped, anything else is pushed.
\<close>

fun collapse :: "string list \<Rightarrow> string list \<Rightarrow> string list" where
  "collapse [] result = result"
| "collapse (part # parts) result =
     (if part = ''..'' then collapse parts (butlast result)
      else if part \<noteq> ''.'' \<and> part \<noteq> '''' then collapse parts (result @ [part])
      else collapse parts result)"

text \<open>\<^verbatim>\<open>s.replace(/^@\//, "")\<close>\<close>

definition strip_alias :: "string \<Rightarrow> string" where
  "strip_alias s = (if startsWith s ''@/'' then drop 2 s else s)"

definition normalizePath :: "string \<Rightarrow> string" where
  "normalizePath path =
     (let result = collapse (split_on CHR ''/'' path) []
      in if startsWith path ''@/'' then ''@/'' @ strip_alias (join ''/'' result)
         else ''/'' @ join ''/'' result)"

text \<open>
  What the resolve hook returns: \<^verbatim>\<open>{ path, external: true }\<close>,
  \<^verbatim>\<open>{ path, namespace: "virtual" }\<close> or \<^verbatim>\<open>null\<close>.
\<close>

datatype resolve_result = External string | Virtual string | NoResult

definition onResolve :: "string \<Rightarrow> string \<Rightarrow> string \<Rightarrow> resolve_result" where
  "onResolve path namespace importer =
     (if isExternal path then External path
      else if startsWith path ''@/'' then Virtual path
      else if namespace = ''virtual'' \<and> (startsWith path ''./'' \<or> startsWith path ''../'') then
        (let importerDir = substring0 importer (lastIndexOf importer CHR ''/'');
             resolved = normalizePath (importerDir @ ''/'' @ path)
         in Virtual resolved)
      else if \<not> startsWith path ''/'' \<and> \<not> startsWith path ''.'' then External path
      else NoResult)"

subsection \<open>The load hook\<close>

record esbuild_runner =
  fileCache_e :: "(string \<times> file_data) list"

text \<open>\<^verbatim>\<open>new EsbuildRunner()\<close>\<close>

definition new_EsbuildRunner :: esbuild_runner where
  "new_EsbuildRunner = \<lparr>fileCache_e = []\<rparr>"

type_synonym esbuild_state = "esbuild_runner \<times> world"

text \<open>
  What the load hook returns: \<^verbatim>\<open>{ contents, loader }\<close> or
  \<^verbatim>\<open>{ errors: [{ text, location: null }] }\<close>, the text being \<^verbatim>\<open>error.message\<close>.
\<close>

datatype load_result = Loaded string string | LoadErrors "string option list"

definition onLoad ::
  "(string \<Rightarrow> string \<Rightarrow> thrown + file_data) \<Rightarrow> string \<Rightarrow> string \<Rightarrow> esbuild_state
     \<Rightarrow> load_result \<times> esbuild_state" where
  "onLoad fetch base modulePath = (\<lambda>(r, w).
     (case map_of (fileCache_e r) modulePath of
        Some cached \<Rightarrow> (Loaded (contents cached) (loader cached), r, w)
      | None \<Rightarrow>
          (let w1 = w\<lparr>fetches := fetches w @ [(modulePath, base)]\<rparr> in
           case fetch modulePath base of
             Inr result \<Rightarrow>
               (Loaded (contents result) (loader result),
                r\<lparr>fileCache_e := AList.update modulePath result (fileCache_e r)\<rparr>,
                log LogL [Text (''[esbuild] Loaded: '' @ modulePath)] w1)
           | Inl x \<Rightarrow> (LoadErrors [message (Thrown x)], r, w1))))"

subsection \<open>Initialisation, compile and run\<close>

text \<open>What \<^verbatim>\<open>esbuild.build\<close> resolves to, as far as \<^verbatim>\<open>compile\<close> reads it.\<close>

record build_output =
  errors :: "string list"
  outputFiles :: "string list"
  build_warnings :: "string list"

text \<open>
  The collaborators of the bundling runner: the source provider, the outcomes of loading
  and initialising the engine module, and the engine's \<^verbatim>\<open>build\<close>, which is handed the
  options and the two hooks of the plugin and may call them on the runner's state.
\<close>

record esbuild_env =
  fetchSourceFile_e :: "string \<Rightarrow> string \<Rightarrow> thrown + file_data"
  import_esbuild :: "thrown + unit"
  esbuild_initialize :: "thrown + unit"
  build ::
    "options \<Rightarrow> (string \<Rightarrow> string \<Rightarrow> string \<Rightarrow> resolve_result)
       \<Rightarrow> (string \<Rightarrow> esbuild_state \<Rightarrow> load_result \<times> esbuild_state)
       \<Rightarrow> esbuild_state \<Rightarrow> (thrown + build_output) \<times> esbuild_state"

definition esbuild_url :: string where
  "esbuild_url = ''https://unpkg.com/esbuild-wasm@0.27.1/esm/browser.js''"

text \<open>
  \<^verbatim>\<open>initialize\<close>: the module variable \<^verbatim>\<open>esbuild\<close> is assigned as soon as the import
  resolves, the flag only after the engine's own \<^verbatim>\<open>initialize\<close> has resolved.
\<close>

definition initialize_esbuild :: "esbuild_env \<Rightarrow> world \<Rightarrow> (error + unit) \<times> world" where
  "initialize_esbuild e w =
     (if esbuild_initialized w then (Inr (), w)
      else
        (let w1 = w\<lparr>engine_loads := engine_loads w @ [esbuild_url]\<rparr> in
         case import_esbuild e of
           Inl x \<Rightarrow>
             (Inl (Thrown x), log ErrorL [Text ''[esbuild] Init error:'', Value (Thrown x)] w1)
         | Inr _ \<Rightarrow>
             (let w2 = w1\<lparr>esbuild := True\<rparr> in
              case esbuild_initialize e of
                Inl x \<Rightarrow>
                  (Inl (Thrown x),
                   log ErrorL [Text ''[esbuild] Init error:'', Value (Thrown x)] w2)
              | Inr _ \<Rightarrow>
                  (Inr (), log LogL [Text ''[esbuild] Initialized'']
                             (w2\<lparr>esbuild_initialized := True\<rparr>)))))"

record bundle_result =
  bundle_code :: string
  bundle_warnings :: "string list"

definition compile_esbuild ::
  "esbuild_env \<Rightarrow> options \<Rightarrow> esbuild_state \<Rightarrow> (error + bundle_result) \<times> esbuild_state" where
  "compile_esbuild e opts = (\<lambda>(r, w).
     if \<not> esbuild_initialized w then
       (Inl (NotInitialized ''EsbuildRunner not initialized. Call initialize() first.''), r, w)
     else
       (let r0 = (if clearCache opts then r\<lparr>fileCache_e := []\<rparr> else r);
            w0 = log LogL [Text (''[esbuild] Building: '' @ entryPoint opts)] w
        in if \<not> esbuild w0 then
             (let x = ErrorObject ''Cannot read properties of null (reading 'build')''
              in (Inl (Thrown x), r0,
                  log ErrorL [Text ''[esbuild] Build error:'', Value (Thrown x)] w0))
           else
             (case build e opts onResolve (onLoad (fetchSourceFile_e e) (baseUrl opts)) (r0, w0) of
                (Inl x, r1, w1) \<Rightarrow>
                  (Inl (Thrown x), r1,
                   log ErrorL [Text ''[esbuild] Build error:'', Value (Thrown x)] w1)
              | (Inr out, r1, w1) \<Rightarrow>
                  (if length (errors out) > 0 then
                     (let errorText = join [CHR 0x0A] (errors out)
                      in (Inl (BuildFailed errorText), r1,
                          log ErrorL [Text ''[esbuild] Build error:'', Value (BuildFailed errorText)]
                            (log ErrorL [Text ''[esbuild] Errors:'', Text errorText] w1)))
                   else
                     (case outputFiles out of
                        [] \<Rightarrow>
                          (let x = ErrorObject ''Cannot read properties of undefined (reading 'text')''
                           in (Inl (Thrown x), r1,
                               log ErrorL [Text ''[esbuild] Build error:'', Value (Thrown x)] w1))
                      | bundled # _ \<Rightarrow>
                          (Inr \<lparr>bundle_code = bundled, bundle_warnings = build_warnings out\<rparr>,
                           r1,
                           log LogL [Text (''[esbuild] Build complete: ''
                                       @ decimal (length bundled) @ '' bytes'')] w1))))))"

definition compileAndRun_esbuild ::
  "esbuild_env \<Rightarrow> options \<Rightarrow> esbuild_state \<Rightarrow> (error + string) \<times> esbuild_state" where
  "compileAndRun_esbuild e opts st =
     (case compile_esbuild e opts st of
        (Inl err, st') \<Rightarrow> (Inl err, st')
      | (Inr res, r', w') \<Rightarrow>
          (case root w' of
             None \<Rightarrow> (Inl (NoRoot ''No root element found''), r', w')
           | Some _ \<Rightarrow>
               (let cleared = [];
                    frame = make_iframe (bundle_code res);
                    w2 = w'\<lparr>root := Some (cleared @ [Frame frame])\<rparr>
                in (Inr (bundle_code res), r',
                    log LogL [Text ''[esbuild] Execution complete in iframe''] w2))))"


section \<open>The emitted preloader as a program\<close>

text \<open>
  The last lines of the bundle are a program of their own, run inside the frame. Here
  they are once more as a syntax tree: its rendering is, line for line, the text that
  \<^verbatim>\<open>compileAndRun\<close> pushes, and its run is what the frame does with that text. The tree
  covers the JavaScript these lines use: string literals, one-hole template literals,
  variables, \<^verbatim>\<open>.message\<close>, \<^verbatim>\<open>+\<close>; stores into \<^verbatim>\<open>__cache__\<close>, console calls, a call of
  the registry's \<^verbatim>\<open>__require__\<close>, an assignment to the \<^verbatim>\<open>innerHTML\<close> of \<^verbatim>\<open>#root\<close>,
  \<^verbatim>\<open>try\<close>/\<^verbatim>\<open>catch\<close>; and at top level a constant array and the chain
  \<^verbatim>\<open>Promise.all(arr.map(p => import(p).then(m => {...}))).then(() => {...}).catch(e => {...})\<close>.
\<close>

datatype expr =
    Quoted string
  | Backtick string string
  | Name string
  | MessageOf string
  | Concat expr expr

datatype stmt =
    LineComment string
  | CacheStore string string
  | ConsoleLog expr
  | ConsoleError expr expr
  | Require string
  | SetRootHtml expr
  | TryCatch "stmt list" string "stmt list"


subsection \<open>Rendering\<close>













subsection \<open>Running\<close>

text \<open>
  Values at run time: a string, a module object, a caught value, \<^verbatim>\<open>undefined\<close>. The
  state of the frame is the registry cache \<^verbatim>\<open>__cache__\<close>, the frame's console, the
  content of the frame document's \<^verbatim>\<open>#root\<close>, the calls of \<^verbatim>\<open>__require__\<close> made so far
  (each with its key and the keys the cache held at that moment), and the promise made by
  \<^verbatim>\<open>Promise.all\<close>: how many of its inputs are still pending and whether it has settled.
\<close>

type_synonym jsmodule = string

datatype val = VText string | VModule jsmodule | VCaught thrown | VUndefined

datatype promise_state = Pending | Fulfilled | Rejected

record frame_run =
  cache :: "(string \<times> val) list"
  frame_console :: "(level \<times> val list) list"
  root_html :: string
  entry_runs :: "(string \<times> string list) list"
  remaining :: nat
  all_state :: promise_state

definition flog :: "level \<Rightarrow> val list \<Rightarrow> frame_run \<Rightarrow> frame_run" where
  "flog l args f = f\<lparr>frame_console := frame_console f @ [(l, args)]\<rparr>"

text \<open>The string a value becomes in a concatenation or a template.\<close>

fun to_string :: "val \<Rightarrow> string" where
  "to_string (VText s) = s"
| "to_string (VModule m) = ''[object Module]''"
| "to_string (VCaught (ErrorObject m)) = ''Error: '' @ m"
| "to_string (VCaught (Bare s)) = s"
| "to_string VUndefined = ''undefined''"

definition lookup :: "(string \<times> val) list \<Rightarrow> string \<Rightarrow> val" where
  "lookup env v = (case map_of env v of Some x \<Rightarrow> x | None \<Rightarrow> VUndefined)"

fun eval :: "(string \<times> val) list \<Rightarrow> expr \<Rightarrow> val" where
  "eval env (Quoted s) = VText s"
| "eval env (Backtick pre v) = VText (pre @ to_string (lookup env v))"
| "eval env (Name v) = lookup env v"
| "eval env (MessageOf v) =
     (case lookup env v of VCaught (ErrorObject m) \<Rightarrow> VText m | _ \<Rightarrow> VUndefined)"
| "eval env (Concat a b) = VText (to_string (eval env a) @ to_string (eval env b))"

text \<open>
  A statement runs to completion or throws. What \<^verbatim>\<open>__require__(key)\<close> does is the
  registry's and the user's business, a parameter here: given the key and the cache it
  throws, or it returns after leaving a rendering in \<^verbatim>\<open>#root\<close>.
\<close>

type_synonym resolver = "string \<Rightarrow> (string \<times> val) list \<Rightarrow> thrown + string"

fun exec :: "resolver \<Rightarrow> (string \<times> val) list \<Rightarrow> stmt \<Rightarrow> frame_run \<Rightarrow> thrown option \<times> frame_run"
and exec_block ::
  "resolver \<Rightarrow> (string \<times> val) list \<Rightarrow> stmt list \<Rightarrow> frame_run \<Rightarrow> thrown option \<times> frame_run"
where
  "exec rq env (LineComment c) f = (None, f)"
| "exec rq env (CacheStore a b) f =
     (None, f\<lparr>cache := AList.update (to_string (lookup env a)) (lookup env b) (cache f)\<rparr>)"
| "exec rq env (ConsoleLog a) f = (None, flog LogL [eval env a] f)"
| "exec rq env (ConsoleError a b) f = (None, flog ErrorL [eval env a, eval env b] f)"
| "exec rq env (Require k) f =
     (let f1 = f\<lparr>entry_runs := entry_runs f @ [(k, map fst (cache f))]\<rparr> in
      case rq k (cache f) of
        Inl x \<Rightarrow> (Some x, f1)
      | Inr html \<Rightarrow> (None, f1\<lparr>root_html := html\<rparr>))"
| "exec rq env (SetRootHtml a) f = (None, f\<lparr>root_html := to_string (eval env a)\<rparr>)"
| "exec rq env (TryCatch body v handler) f =
     (case exec_block rq env body f of
        (None, f1) \<Rightarrow> (None, f1)
      | (Some x, f1) \<Rightarrow> exec_block rq ((v, VCaught x) # env) handler f1)"
| "exec_block rq env [] f = (None, f)"
| "exec_block rq env (s # ss) f =
     (case exec rq env s f of
        (None, f1) \<Rightarrow> exec_block rq env ss f1
      | (Some x, f1) \<Rightarrow> (Some x, f1))"











section \<open>What the rewritten statements bind\<close>




















text \<open>A pattern occurs in a text: some suffix of the text starts with it.\<close>

fun occurs :: "string \<Rightarrow> string \<Rightarrow> bool" where
  "occurs pat [] = (pat = [])"
| "occurs pat (c # cs) = (startsWith (c # cs) pat \<or> occurs pat cs)"



section \<open>Loading failures\<close>

text \<open>The warning \<^verbatim>\<open>transformDependencies\<close> logs for a dependency that failed to load.\<close>

definition dependency_warning :: "string \<Rightarrow> error \<Rightarrow> level \<times> arg list" where
  "dependency_warning importPath err =
     (WarnL, [Text (''[swc] Could not transform dependency '' @ importPath @ '':''),
              message_arg err])"

text \<open>
  The transformed-module cache as \<^verbatim>\<open>compile\<close> finds it after the \<^verbatim>\<open>clearCache\<close> step.
\<close>

definition consulted :: "options \<Rightarrow> swc_runner \<Rightarrow> (string \<times> string) list" where
  "consulted opts r = (if clearCache opts then [] else transformedFiles r)"

section \<open>Resolution as the specification words it\<close>




section \<open>Scenarios\<close>

text \<open>A page with an empty \<^verbatim>\<open>#root\<close> on which both engines have been initialised.\<close>

definition ready_world :: world where
  "ready_world = \<lparr>swc = True, swc_initialized = True, esbuild = True,
     esbuild_initialized = True, console = [], fetches = [], transforms = [],
     engine_loads = [swc_url, esbuild_url], root = Some []\<rparr>"

text \<open>A page on which nothing has been initialised yet.\<close>

definition blank_world :: world where
  "blank_world = \<lparr>swc = False, swc_initialized = False, esbuild = False,
     esbuild_initialized = False, console = [], fetches = [], transforms = [],
     engine_loads = [], root = Some []\<rparr>"

text \<open>
  A small project: \<^verbatim>\<open>@/entry\<close> imports \<^verbatim>\<open>@/a\<close>, which imports \<^verbatim>\<open>@/b\<close>;
  \<^verbatim>\<open>@/twice\<close> imports one file under the two specifiers \<^verbatim>\<open>@/x\<close> and \<^verbatim>\<open>@/x.js\<close>;
  \<^verbatim>\<open>@/broken\<close> imports \<^verbatim>\<open>@/missing\<close>, for which there is no source;
  \<^verbatim>\<open>@/uses-garbled\<close> imports \<^verbatim>\<open>@/garbled\<close>, whose text the engine rejects.
\<close>

definition project_files :: "(string \<times> string) list" where
  "project_files =
    [(''@/entry'', ''import a from \"@/a\"''),
     (''@/a'', ''import b from \"@/b\"''),
     (''@/b'', ''export const b = 2''),
     (''@/twice'', ''import x from \"@/x\"; import y from \"@/x.js\"''),
     (''@/x'', ''export default 1''),
     (''@/x.js'', ''export default 1''),
     (''@/broken'', ''import m from \"@/missing\"''),
     (''@/uses-garbled'', ''import g from \"@/garbled\"''),
     (''@/garbled'', ''<<<'')]"

definition project_fetch :: "string \<Rightarrow> string \<Rightarrow> thrown + file_data" where
  "project_fetch modulePath base =
     (case map_of project_files modulePath of
        Some text \<Rightarrow> Inr \<lparr>contents = text, loader = ''js''\<rparr>
      | None \<Rightarrow> Inl (ErrorObject (''File not found: '' @ modulePath)))"

text \<open>
  An engine that loads, initialises and leaves the text as it is, except that it throws a
  bare string on the garbled text.
\<close>

definition project_transform :: "string \<Rightarrow> string \<Rightarrow> thrown + string" where
  "project_transform src filePath = (if src = ''<<<'' then Inl (Bare ''Syntax Error'') else Inr src)"

definition project_env :: swc_env where
  "project_env = \<lparr>fetchSourceFile = project_fetch, transformSync = project_transform,
     import_swc = Inr (), initSwc = Inr ()\<rparr>"

text \<open>A bundling engine that loads the entry through the load hook and returns its text.\<close>

definition project_build ::
  "options \<Rightarrow> (string \<Rightarrow> string \<Rightarrow> string \<Rightarrow> resolve_result)
     \<Rightarrow> (string \<Rightarrow> esbuild_state \<Rightarrow> load_result \<times> esbuild_state)
     \<Rightarrow> esbuild_state \<Rightarrow> (thrown + build_output) \<times> esbuild_state" where
  "project_build opts resolve load st =
     (case load (entryPoint opts) st of
        (Loaded text _, st') \<Rightarrow>
          (Inr \<lparr>errors = [], outputFiles = [text], build_warnings = []\<rparr>, st')
      | (LoadErrors es, st') \<Rightarrow>
          (Inr \<lparr>errors = map (\<lambda>t. case t of Some m \<Rightarrow> m | None \<Rightarrow> ''undefined'') es,
                outputFiles = [], build_warnings = []\<rparr>, st'))"

definition project_esbuild_env :: esbuild_env where
  "project_esbuild_env = \<lparr>fetchSourceFile_e = project_fetch, import_esbuild = Inr (),
     esbuild_initialize = Inr (), build = project_build\<rparr>"




text \<open>
  Runners that already hold something: a SwcRunner with a stale entry, an EsbuildRunner
  that has loaded the entry.
\<close>

definition stale_runner :: swc_runner where
  "stale_runner = \<lparr>fileCache = [], transformedFiles = [(''@/entry'', ''stale'')]\<rparr>"

definition warm_esbuild :: esbuild_runner where
  "warm_esbuild = \<lparr>fileCache_e = [(''@/entry'', \<lparr>contents = ''x'', loader = ''js''\<rparr>)]\<rparr>"





section \<open>Facts about loading one file\<close>

lemma load_error_thrown:
  "loadAndTransformFile e p b st = (Inl err, st') \<Longrightarrow> \<exists>m. err = Thrown m"
  by (cases st)
     (auto simp: loadAndTransformFile_def transformFile_def Let_def
           split: option.splits sum.splits prod.splits if_splits)

lemmas load_defs = loadAndTransformFile_def transformFile_def log_def Let_def

lemma load_cached:
  "map_of (transformedFiles r) p = Some t \<Longrightarrow> loadAndTransformFile e p b (r, w) = (Inr t, r, w)"
  by (simp add: loadAndTransformFile_def)

lemma load_frame:
  assumes "loadAndTransformFile e p b (r, w) = (res, r', w')"
  shows "swc w' = swc w" and "swc_initialized w' = swc_initialized w" and "root w' = root w"
  using assms
  by (auto simp: load_defs split: option.splits sum.splits prod.splits if_splits)

lemma load_failure_runner:
  assumes "loadAndTransformFile e p b (r, w) = (Inl err, r', w')"
  shows "r' = r"
  using assms
  by (auto simp: load_defs split: option.splits sum.splits prod.splits if_splits)

lemma load_success_cache:
  assumes "loadAndTransformFile e p b (r, w) = (Inr t, r', w')"
  shows "map_of (transformedFiles r') = (map_of (transformedFiles r))(p \<mapsto> t)"
  using assms
  by (auto simp: load_defs update_conv' split: option.splits sum.splits prod.splits if_splits)

lemma load_other_key:
  assumes "loadAndTransformFile e p b (r, w) = (res, r', w')" and "x \<noteq> p"
  shows "map_of (transformedFiles r') x = map_of (transformedFiles r) x"
proof (cases res)
  case (Inl err)
  with assms(1) have "r' = r" by (simp add: load_failure_runner)
  then show ?thesis by simp
next
  case (Inr t)
  with assms load_success_cache [of e p b r w t r' w'] show ?thesis by simp
qed

lemma load_keeps:
  assumes "loadAndTransformFile e p b (r, w) = (res, r', w')"
      and "map_of (transformedFiles r) x = Some t"
  shows "map_of (transformedFiles r') x = Some t"
proof (cases "x = p")
  case True
  with assms show ?thesis by (simp add: load_cached)
next
  case False
  with assms show ?thesis by (simp add: load_other_key)
qed

lemma load_fetches:
  assumes "loadAndTransformFile e p b (r, w) = (res, r', w')"
  shows "fetches w' = fetches w @ (if map_of (transformedFiles r) p = None then [(p, b)] else [])"
  using assms
  by (auto simp: load_defs split: option.splits sum.splits prod.splits if_splits)

lemma load_transforms:
  assumes "loadAndTransformFile e p b (r, w) = (res, r', w')"
  shows "\<exists>ts. transforms w' = transforms w @ ts \<and> length ts \<le> 1
            \<and> set ts \<subseteq> {p} \<inter> {x. map_of (transformedFiles r) x = None}"
  using assms
  by (auto simp: load_defs split: option.splits sum.splits prod.splits if_splits)

subsection \<open>The loop over the discovered imports\<close>

lemma loadEach_frame:
  "loadEach e ds b (r, w) = (r', w') \<Longrightarrow>
     swc w' = swc w \<and> swc_initialized w' = swc_initialized w \<and> root w' = root w"
proof (induction ds arbitrary: r w)
  case Nil
  then show ?case by simp
next
  case (Cons d ds)
  obtain res r1 w1 where l: "loadAndTransformFile e d b (r, w) = (res, r1, w1)"
    by (cases "loadAndTransformFile e d b (r, w)") auto
  note fr = load_frame [OF l]
  show ?case
  proof (cases res)
    case (Inl err)
    with Cons.prems l have "loadEach e ds b (r1, log WarnL
        [Text (''[swc] Could not transform dependency '' @ d @ '':''), message_arg err] w1) = (r', w')"
      by simp
    from Cons.IH [OF this] fr show ?thesis by (simp add: log_def)
  next
    case (Inr t)
    with Cons.prems l have "loadEach e ds b (r1, w1) = (r', w')" by simp
    from Cons.IH [OF this] fr show ?thesis by simp
  qed
qed

lemma loadEach_other_key:
  "loadEach e ds b (r, w) = (r', w') \<Longrightarrow> x \<notin> set ds \<Longrightarrow>
     map_of (transformedFiles r') x = map_of (transformedFiles r) x"
proof (induction ds arbitrary: r w)
  case Nil
  then show ?case by simp
next
  case (Cons d ds)
  obtain res r1 w1 where l: "loadAndTransformFile e d b (r, w) = (res, r1, w1)"
    by (cases "loadAndTransformFile e d b (r, w)") auto
  from Cons.prems have ne: "x \<noteq> d" and nin: "x \<notin> set ds" by auto
  note k = load_other_key [OF l ne]
  show ?case
  proof (cases res)
    case (Inl err)
    with Cons.prems l have "loadEach e ds b (r1, log WarnL
        [Text (''[swc] Could not transform dependency '' @ d @ '':''), message_arg err] w1) = (r', w')"
      by simp
    from Cons.IH [OF this nin] k show ?thesis by simp
  next
    case (Inr t)
    with Cons.prems l have "loadEach e ds b (r1, w1) = (r', w')" by simp
    from Cons.IH [OF this nin] k show ?thesis by simp
  qed
qed

lemma loadEach_keeps:
  "loadEach e ds b (r, w) = (r', w') \<Longrightarrow> map_of (transformedFiles r) x = Some t \<Longrightarrow>
     map_of (transformedFiles r') x = Some t"
proof (induction ds arbitrary: r w)
  case Nil
  then show ?case by simp
next
  case (Cons d ds)
  obtain res r1 w1 where l: "loadAndTransformFile e d b (r, w) = (res, r1, w1)"
    by (cases "loadAndTransformFile e d b (r, w)") auto
  note k = load_keeps [OF l Cons.prems(2)]
  show ?case
  proof (cases res)
    case (Inl err)
    with Cons.prems l have "loadEach e ds b (r1, log WarnL
        [Text (''[swc] Could not transform dependency '' @ d @ '':''), message_arg err] w1) = (r', w')"
      by simp
    from Cons.IH [OF this k] show ?thesis .
  next
    case (Inr t)
    with Cons.prems l have "loadEach e ds b (r1, w1) = (r', w')" by simp
    from Cons.IH [OF this k] show ?thesis .
  qed
qed

lemma loadEach_all_cached:
  "\<forall>d\<in>set ds. map_of (transformedFiles r) d \<noteq> None \<Longrightarrow> loadEach e ds b (r, w) = (r, w)"
  by (induction ds) (auto simp: load_cached)

lemma set_dedupe: "set (dedupe xs) = set xs"
  by (induction xs rule: dedupe.induct) auto

lemma distinct_dedupe: "distinct (dedupe xs)"
  by (induction xs rule: dedupe.induct) (auto simp: set_dedupe)

lemma distinct_extractImports: "distinct (extractImports src)"
  by (simp add: extractImports_def distinct_dedupe)

lemma loadEach_fetches:
  "loadEach e ds b (r, w) = (r', w') \<Longrightarrow> distinct ds \<Longrightarrow>
     fetches w' = fetches w @ map (\<lambda>d. (d, b)) (filter (\<lambda>d. map_of (transformedFiles r) d = None) ds)"
proof (induction ds arbitrary: r w)
  case Nil
  then show ?case by simp
next
  case (Cons x ds)
  obtain res r1 w1 where l: "loadAndTransformFile e x b (r, w) = (res, r1, w1)"
    by (cases "loadAndTransformFile e x b (r, w)") auto
  from Cons.prems have dist: "distinct ds" and xnin: "x \<notin> set ds" by auto
  have eqk: "map_of (transformedFiles r1) d = map_of (transformedFiles r) d" if "d \<in> set ds" for d
    using that xnin by (intro load_other_key [OF l]) auto
  have same: "filter (\<lambda>d. map_of (transformedFiles r1) d = None) ds
            = filter (\<lambda>d. map_of (transformedFiles r) d = None) ds"
    by (rule filter_cong) (simp_all add: eqk)
  note f = load_fetches [OF l]
  show ?case
  proof (cases res)
    case (Inl err)
    let ?w2 = "log WarnL
        [Text (''[swc] Could not transform dependency '' @ x @ '':''), message_arg err] w1"
    from Cons.prems l Inl have rest: "loadEach e ds b (r1, ?w2) = (r', w')" by simp
    from Cons.IH [OF rest dist] f same show ?thesis by (simp add: log_def)
  next
    case (Inr t)
    with Cons.prems l have rest: "loadEach e ds b (r1, w1) = (r', w')" by simp
    from Cons.IH [OF rest dist] f same show ?thesis by simp
  qed
qed

lemma loadEach_transforms:
  "loadEach e ds b (r, w) = (r', w') \<Longrightarrow> distinct ds \<Longrightarrow>
     \<exists>ts. transforms w' = transforms w @ ts \<and> distinct ts
        \<and> set ts \<subseteq> {d \<in> set ds. map_of (transformedFiles r) d = None}"
proof (induction ds arbitrary: r w)
  case Nil
  then show ?case by simp
next
  case (Cons x ds)
  obtain res r1 w1 where l: "loadAndTransformFile e x b (r, w) = (res, r1, w1)"
    by (cases "loadAndTransformFile e x b (r, w)") auto
  from Cons.prems have dist: "distinct ds" and xnin: "x \<notin> set ds" by auto
  from load_transforms [OF l] obtain ts1 where t1: "transforms w1 = transforms w @ ts1"
    and len: "length ts1 \<le> 1"
    and sub1: "set ts1 \<subseteq> {x} \<inter> {y. map_of (transformedFiles r) y = None}" by blast
  from len have d1: "distinct ts1" by (cases ts1) auto
  have rest_ex: "\<exists>w2. loadEach e ds b (r1, w2) = (r', w') \<and> transforms w2 = transforms w1"
  proof (cases res)
    case (Inl err)
    with Cons.prems l show ?thesis by (auto simp: log_def)
  next
    case (Inr t)
    with Cons.prems l show ?thesis by auto
  qed
  then obtain w2 where rest: "loadEach e ds b (r1, w2) = (r', w')"
    and t2: "transforms w2 = transforms w1" by blast
  from Cons.IH [OF rest dist] obtain ts2 where t3: "transforms w' = transforms w2 @ ts2"
    and d2: "distinct ts2"
    and sub2: "set ts2 \<subseteq> {d \<in> set ds. map_of (transformedFiles r1) d = None}" by blast
  have eqk: "map_of (transformedFiles r1) d = map_of (transformedFiles r) d" if "d \<in> set ds" for d
    using that xnin by (intro load_other_key [OF l]) auto
  have sub2': "set ts2 \<subseteq> {d \<in> set ds. map_of (transformedFiles r) d = None}"
    using sub2 eqk by fastforce
  have "transforms w' = transforms w @ (ts1 @ ts2)" using t1 t2 t3 by simp
  moreover have "distinct (ts1 @ ts2)" using d1 d2 sub1 sub2' xnin by auto
  moreover have "set (ts1 @ ts2) \<subseteq> {d \<in> set (x # ds). map_of (transformedFiles r) d = None}"
    using sub1 sub2' by auto
  ultimately show ?case by blast
qed

lemma moduleMap_keys_distinct:
  "distinct (map fst m) \<Longrightarrow>
     distinct (map fst (fold (\<lambda>(path, c). AList.update (entryPathResolved path) (resolveImports c path)) tf m))"
  by (induction tf arbitrary: m) (auto simp: distinct_update)

lemma load_fileCache_keys:
  assumes "loadAndTransformFile e p b (r, w) = (res, r', w')"
  shows "fst ` set (fileCache r) \<subseteq> fst ` set (fileCache r')"
proof -
  have "fileCache r' = fileCache r \<or> (\<exists>v. fileCache r' = AList.update p v (fileCache r))"
    using assms
    by (auto simp: load_defs split: option.splits sum.splits prod.splits if_splits)
  then show ?thesis
  proof
    assume "fileCache r' = fileCache r"
    then show ?thesis by simp
  next
    assume "\<exists>v. fileCache r' = AList.update p v (fileCache r)"
    then obtain v where "fileCache r' = AList.update p v (fileCache r)" ..
    then have "fst ` set (fileCache r') = {p} \<union> fst ` set (fileCache r)"
      by (simp add: dom_update)
    then show ?thesis by blast
  qed
qed

lemma loadEach_fileCache_keys:
  "loadEach e ds b (r, w) = (r', w') \<Longrightarrow> fst ` set (fileCache r) \<subseteq> fst ` set (fileCache r')"
proof (induction ds arbitrary: r w)
  case Nil
  then show ?case by simp
next
  case (Cons x ds)
  obtain res r1 w1 where l: "loadAndTransformFile e x b (r, w) = (res, r1, w1)"
    by (cases "loadAndTransformFile e x b (r, w)") auto
  have "\<exists>w2. loadEach e ds b (r1, w2) = (r', w')"
    using Cons.prems l by (cases res) auto
  then obtain w2 where "loadEach e ds b (r1, w2) = (r', w')" by blast
  from Cons.IH [OF this] load_fileCache_keys [OF l] show ?case by blast
qed

text \<open>The build result \<^verbatim>\<open>compile\<close> assembles from the entry's text and the cache.\<close>

lemma compile_swc_success:
  assumes "compile_swc e opts (r, w) = (Inr res, r1, w1)"
  shows "swc_initialized w1 \<and>
         (\<exists>t. map_of (transformedFiles r1) (entryPoint opts) = Some t \<and>
              res = \<lparr>code = resolveImports t (entryPoint opts),
                     moduleMap = fold (\<lambda>(path, c). AList.update (entryPathResolved path)
                                                      (resolveImports c path))
                                   (transformedFiles r1)
                                   [(entryPathResolved (entryPoint opts),
                                     resolveImports t (entryPoint opts))],
                     entryPoint_out = entryPathResolved (entryPoint opts), warnings = []\<rparr>)"
proof -
  from assms have init: "swc_initialized w" by (auto simp: compile_swc_def split: if_splits)
  define r0 where "r0 = (if clearCache opts then r\<lparr>fileCache := [], transformedFiles := []\<rparr> else r)"
  define w0 where "w0 = log LogL [Text (''[swc] Building: '' @ entryPoint opts)] w"
  obtain res1 ra wa where l:
    "loadAndTransformFile e (entryPoint opts) (baseUrl opts) (r0, w0) = (res1, ra, wa)"
    by (cases "loadAndTransformFile e (entryPoint opts) (baseUrl opts) (r0, w0)") auto
  have "\<exists>t. res1 = Inr t"
    using assms init l [unfolded r0_def w0_def]
    by (cases res1) (auto simp: compile_swc_def Let_def split del: if_split)
  then obtain t where l': "loadAndTransformFile e (entryPoint opts) (baseUrl opts) (r0, w0)
      = (Inr t, ra, wa)" using l by auto
  obtain rb wb where deps: "loadEach e (extractImports t) (baseUrl opts) (ra, wa) = (rb, wb)"
    by (cases "loadEach e (extractImports t) (baseUrl opts) (ra, wa)") auto
  have fin: "r1 = rb \<and> swc_initialized w1 = swc_initialized wb \<and>
        res = \<lparr>code = resolveImports t (entryPoint opts),
                     moduleMap = fold (\<lambda>(path, c). AList.update (entryPathResolved path)
                                                      (resolveImports c path))
                                   (transformedFiles rb)
                                   [(entryPathResolved (entryPoint opts),
                                     resolveImports t (entryPoint opts))],
                     entryPoint_out = entryPathResolved (entryPoint opts), warnings = []\<rparr>"
    using assms init l' [unfolded r0_def w0_def] deps
    by (auto simp: compile_swc_def transformDependencies_def Let_def log_def split del: if_split)
  have "swc_initialized wa" using load_frame(2) [OF l'] init by (simp add: w0_def log_def)
  with loadEach_frame [OF deps] have "swc_initialized wb" by simp
  moreover have "map_of (transformedFiles ra) (entryPoint opts) = Some t"
    using load_success_cache [OF l'] by simp
  with loadEach_keeps [OF deps] have "map_of (transformedFiles rb) (entryPoint opts) = Some t" .
  ultimately show ?thesis using fin by auto
qed

lemma compile_swc_all_cached:
  assumes init: "swc_initialized w" and keep: "\<not> clearCache opts"
      and entry: "map_of (transformedFiles r) (entryPoint opts) = Some t"
      and deps: "\<forall>d\<in>set (extractImports t). map_of (transformedFiles r) d \<noteq> None"
  shows "\<exists>w2. compile_swc e opts (r, w) =
           (Inr \<lparr>code = resolveImports t (entryPoint opts),
                 moduleMap = fold (\<lambda>(path, c). AList.update (entryPathResolved path)
                                                  (resolveImports c path))
                               (transformedFiles r)
                               [(entryPathResolved (entryPoint opts),
                                 resolveImports t (entryPoint opts))],
                 entryPoint_out = entryPathResolved (entryPoint opts), warnings = []\<rparr>, r, w2)
          \<and> fetches w2 = fetches w \<and> transforms w2 = transforms w"
  using init keep
  by (simp add: compile_swc_def Let_def load_cached [OF entry] transformDependencies_def
        loadEach_all_cached [OF deps] log_def)

lemma compile_swc_keeps:
  assumes "compile_swc e opts (r, w) = (res, r', w')" and "\<not> clearCache opts"
  shows "(\<forall>p t. map_of (transformedFiles r) p = Some t \<longrightarrow> map_of (transformedFiles r') p = Some t)
       \<and> fst ` set (fileCache r) \<subseteq> fst ` set (fileCache r')"
proof (cases "swc_initialized w")
  case False
  with assms show ?thesis by (auto simp: compile_swc_def)
next
  case True
  define w0 where "w0 = log LogL [Text (''[swc] Building: '' @ entryPoint opts)] w"
  obtain res1 ra wa where l:
    "loadAndTransformFile e (entryPoint opts) (baseUrl opts) (r, w0) = (res1, ra, wa)"
    by (cases "loadAndTransformFile e (entryPoint opts) (baseUrl opts) (r, w0)") auto
  show ?thesis
  proof (cases res1)
    case (Inl err)
    with assms True l [unfolded w0_def] have "r' = ra"
      by (auto simp: compile_swc_def Let_def)
    with load_keeps [OF l] load_fileCache_keys [OF l] show ?thesis by blast
  next
    case (Inr t)
    obtain rb wb where deps: "loadEach e (extractImports t) (baseUrl opts) (ra, wa) = (rb, wb)"
      by (cases "loadEach e (extractImports t) (baseUrl opts) (ra, wa)") auto
    with assms True l [unfolded w0_def] Inr have "r' = rb"
      by (auto simp: compile_swc_def transformDependencies_def Let_def)
    with load_keeps [OF l] load_fileCache_keys [OF l] loadEach_keeps [OF deps]
      loadEach_fileCache_keys [OF deps]
    show ?thesis by blast
  qed
qed

lemma onLoad_cached:
  "map_of (fileCache_e q) p = Some fd \<Longrightarrow>
     onLoad fetch base p (q, w) = (Loaded (contents fd) (loader fd), q, w)"
  by (simp add: onLoad_def)


subsection \<open>Failing loads\<close>

lemma load_console_grows:
  assumes "loadAndTransformFile e p b (r, w) = (res, r', w')"
  shows "\<exists>ls. console w' = console w @ ls"
  using assms
  by (auto simp: load_defs split: option.splits sum.splits prod.splits if_splits)

lemma loadEach_console_grows:
  "loadEach e ds b (r, w) = (r', w') \<Longrightarrow> \<exists>ls. console w' = console w @ ls"
proof (induction ds arbitrary: r w)
  case Nil
  then show ?case by simp
next
  case (Cons d ds)
  obtain res r1 w1 where l: "loadAndTransformFile e d b (r, w) = (res, r1, w1)"
    by (cases "loadAndTransformFile e d b (r, w)") auto
  from load_console_grows [OF l] obtain ls1 where c1: "console w1 = console w @ ls1" by blast
  have "\<exists>w2 ls2. loadEach e ds b (r1, w2) = (r', w') \<and> console w2 = console w1 @ ls2"
    using Cons.prems l by (cases res) (auto simp: log_def)
  then obtain w2 ls2 where rest: "loadEach e ds b (r1, w2) = (r', w')"
    and c2: "console w2 = console w1 @ ls2" by blast
  from Cons.IH [OF rest] obtain ls3 where "console w' = console w2 @ ls3" by blast
  with c1 c2 have "console w' = console w @ (ls1 @ ls2 @ ls3)" by simp
  then show ?case by blast
qed

lemma load_failure:
  assumes "map_of (transformedFiles r) p = None" and "swc w"
      and "fetchSourceFile e p b = Inl x
           \<or> (\<exists>fd. fetchSourceFile e p b = Inr fd \<and> transformSync e (contents fd) p = Inl x)"
  shows "\<exists>w'. loadAndTransformFile e p b (r, w) = (Inl (Thrown x), r, w')"
  using assms by (auto simp: load_defs)

lemma load_success:
  assumes "map_of (transformedFiles r) p = None" and "swc w"
      and "fetchSourceFile e p b = Inr fd" and "transformSync e (contents fd) p = Inr t"
  shows "\<exists>r' w'. loadAndTransformFile e p b (r, w) = (Inr t, r', w')"
  using assms by (auto simp: load_defs)

lemma loadEach_failed_dep:
  "loadEach e ds b (r, w) = (r', w') \<Longrightarrow> distinct ds \<Longrightarrow> d \<in> set ds \<Longrightarrow>
   map_of (transformedFiles r) d = None \<Longrightarrow> swc w \<Longrightarrow>
   fetchSourceFile e d b = Inl x
     \<or> (\<exists>fd. fetchSourceFile e d b = Inr fd \<and> transformSync e (contents fd) d = Inl x) \<Longrightarrow>
     (\<exists>ls. console w' = console w @ ls \<and> dependency_warning d (Thrown x) \<in> set ls)
     \<and> map_of (transformedFiles r') d = None"
proof (induction ds arbitrary: r w)
  case Nil
  then show ?case by simp
next
  case (Cons y ds)
  obtain res r1 w1 where l: "loadAndTransformFile e y b (r, w) = (res, r1, w1)"
    by (cases "loadAndTransformFile e y b (r, w)") auto
  from Cons.prems have dist: "distinct ds" and ynin: "y \<notin> set ds" by auto
  from load_console_grows [OF l] obtain ls1 where c1: "console w1 = console w @ ls1" by blast
  have sw: "swc w1" using load_frame(1) [OF l] Cons.prems(5) by simp
  show ?case
  proof (cases "d = y")
    case True
    from load_failure [OF Cons.prems(4) Cons.prems(5) Cons.prems(6)] l True
    have res: "res = Inl (Thrown x)" and r1: "r1 = r" by auto
    let ?w2 = "log WarnL
        [Text (''[swc] Could not transform dependency '' @ y @ '':''), message_arg (Thrown x)] w1"
    from Cons.prems(1) l res have rest: "loadEach e ds b (r1, ?w2) = (r', w')" by simp
    from loadEach_console_grows [OF rest] obtain ls3 where "console w' = console ?w2 @ ls3"
      by blast
    with c1 have "console w' = console w @ (ls1 @ [dependency_warning d (Thrown x)] @ ls3)"
      by (simp add: log_def dependency_warning_def True)
    then have "\<exists>ls. console w' = console w @ ls \<and> dependency_warning d (Thrown x) \<in> set ls"
      by (intro exI [of _ "ls1 @ [dependency_warning d (Thrown x)] @ ls3"]) simp
    moreover from loadEach_other_key [OF rest] ynin True r1 Cons.prems(4)
    have "map_of (transformedFiles r') d = None" by simp
    ultimately show ?thesis by simp
  next
    case False
    with Cons.prems have din: "d \<in> set ds" by simp
    from load_other_key [OF l False] Cons.prems(4)
    have unc: "map_of (transformedFiles r1) d = None" by simp
    have "\<exists>w2 ls2. loadEach e ds b (r1, w2) = (r', w') \<and> console w2 = console w1 @ ls2
            \<and> swc w2"
      using Cons.prems(1) l sw by (cases res) (auto simp: log_def)
    then obtain w2 ls2 where rest: "loadEach e ds b (r1, w2) = (r', w')"
      and c2: "console w2 = console w1 @ ls2" and sw2: "swc w2" by blast
    from Cons.IH [OF rest dist din unc sw2 Cons.prems(6)] obtain ls3
      where c3: "console w' = console w2 @ ls3"
        and inn: "dependency_warning d (Thrown x) \<in> set ls3"
        and none: "map_of (transformedFiles r') d = None" by blast
    from c1 c2 c3 have "console w' = console w @ (ls1 @ ls2 @ ls3)" by simp
    with inn have "\<exists>ls. console w' = console w @ ls \<and> dependency_warning d (Thrown x) \<in> set ls"
      by (intro exI [of _ "ls1 @ ls2 @ ls3"]) simp
    with none show ?thesis by simp
  qed
qed


section \<open>Facts about paths and rewriting\<close>




lemma not_external_dot: "startsWith s ''.'' \<Longrightarrow> \<not> isExternal s"
  by (cases s) (auto simp: isExternal_def externals_def startsWith_def)

lemma startsWith_shorter: "startsWith s (p @ q) \<Longrightarrow> startsWith s p"
  by (auto simp: startsWith_def) (metis append_eq_conv_conj take_take min.absorb1 le_add1 length_append)

lemma collapse_append: "collapse (ps @ qs) result = collapse qs (collapse ps result)"
  by (induction ps arbitrary: result) auto


section \<open>Facts about rewritten statements\<close>



lemma scan_no_literal:
  "\<not> occurs l s \<Longrightarrow> l \<noteq> [] \<Longrightarrow> scan (Lit l # r) s = map Inl s"
  by (induction s) (auto simp: startsWith_def)


lemma scan_head_fails:
  "rmatch (Lit l # r) (c # cs) = None \<Longrightarrow> \<not> occurs l cs \<Longrightarrow> l \<noteq> [] \<Longrightarrow>
     scan (Lit l # r) (c # cs) = map Inl (c # cs)"
  by (simp add: scan_no_literal)


lemma first_some_longest:
  "a \<le> b \<Longrightarrow> f b = Some y \<Longrightarrow> first_some f (rev [a ..< Suc b]) = Some y"
  by simp





















section \<open>Facts about the preloader\<close>



















section \<open>The scenarios run\<close>

lemma swc_run_project:
  "isl (fst (compileAndRun_swc project_env default_options (new_SwcRunner, ready_world))) = False"
  by code_simp

lemma esbuild_run_project:
  "isl (fst (compileAndRun_esbuild project_esbuild_env default_options
               (new_EsbuildRunner, ready_world))) = False"
  by code_simp

lemma first_compile_ok:
  "isl (fst (compile_swc project_env default_options (new_SwcRunner, ready_world))) = False"
  by code_simp

lemma first_compile_entry:
  "map_of (transformedFiles (fst (snd (compile_swc project_env default_options
       (new_SwcRunner, ready_world))))) ''@/entry'' = Some ''import a from \"@/a\"''"
  by code_simp

lemma first_compile_dep:
  "map_of (transformedFiles (fst (snd (compile_swc project_env default_options
       (new_SwcRunner, ready_world))))) ''@/a'' = Some ''import b from \"@/b\"''"
  by code_simp

lemma imports_of_entry: "extractImports ''import a from \"@/a\"'' = [''@/a'']"
  by code_simp

lemma garbled_fetch:
  "fetchSourceFile project_env ''@/garbled'' ''/src'' = Inr \<lparr>contents = ''<<<'', loader = ''js''\<rparr>"
  by (simp add: project_env_def project_fetch_def project_files_def)

lemma garbled_transform:
  "transformSync project_env ''<<<'' ''@/garbled'' = Inl (Bare ''Syntax Error'')"
  by (simp add: project_env_def project_transform_def)

lemma uses_garbled_fetch:
  "fetchSourceFile project_env ''@/uses-garbled'' ''/src''
     = Inr \<lparr>contents = ''import g from \"@/garbled\"'', loader = ''js''\<rparr>"
  by (simp add: project_env_def project_fetch_def project_files_def)

lemma uses_garbled_transform:
  "transformSync project_env ''import g from \"@/garbled\"'' ''@/uses-garbled''
     = Inr ''import g from \"@/garbled\"''"
  by (simp add: project_env_def project_transform_def)

lemma imports_of_uses_garbled: "extractImports ''import g from \"@/garbled\"'' = [''@/garbled'']"
  by code_simp


section \<open>The sandbox of the frame\<close>

lemma make_iframe_sandbox:
  "sandbox (make_iframe body) = [''allow-scripts'', ''allow-popups'', ''allow-forms'']"
  by (simp add: make_iframe_def token_add_def)

text \<open>
  Claim C1. Whenever \<^verbatim>\<open>compileAndRun\<close> of either runner returns the compiled code, the
  host's \<^verbatim>\<open>#root\<close> holds exactly one frame, and the sandbox of that frame is exactly
  \<^verbatim>\<open>allow-scripts\<close>, \<^verbatim>\<open>allow-popups\<close>, \<^verbatim>\<open>allow-forms\<close>; \<^verbatim>\<open>allow-same-origin\<close>
  is not among its tokens.
\<close>

theorem sandbox_tokens_exact:
  "(compileAndRun_swc e opts st = (Inr c, r', w') \<longrightarrow>
      (\<exists>f. root w' = Some [Frame f]
           \<and> sandbox f = [''allow-scripts'', ''allow-popups'', ''allow-forms'']
           \<and> ''allow-same-origin'' \<notin> set (sandbox f)))
   \<and> (compileAndRun_esbuild b opts st2 = (Inr c2, r2', w2') \<longrightarrow>
      (\<exists>f. root w2' = Some [Frame f]
           \<and> sandbox f = [''allow-scripts'', ''allow-popups'', ''allow-forms'']
           \<and> ''allow-same-origin'' \<notin> set (sandbox f)))"
  by (auto simp: compileAndRun_swc_def compileAndRun_esbuild_def make_iframe_sandbox log_def
           split: prod.splits sum.splits option.splits)

theorem sandbox_tokens_exact_witness:
  "(\<exists>c r' w'. compileAndRun_swc project_env default_options (new_SwcRunner, ready_world)
                  = (Inr c, r', w')
       \<and> (\<exists>f. root w' = Some [Frame f]
           \<and> sandbox f = [''allow-scripts'', ''allow-popups'', ''allow-forms'']
           \<and> ''allow-same-origin'' \<notin> set (sandbox f)))
   \<and> (\<exists>c r' w'. compileAndRun_esbuild project_esbuild_env default_options
                    (new_EsbuildRunner, ready_world) = (Inr c, r', w')
       \<and> (\<exists>f. root w' = Some [Frame f]
           \<and> sandbox f = [''allow-scripts'', ''allow-popups'', ''allow-forms'']
           \<and> ''allow-same-origin'' \<notin> set (sandbox f)))"
proof -
  obtain c r' w' where a:
    "compileAndRun_swc project_env default_options (new_SwcRunner, ready_world) = (Inr c, r', w')"
    using swc_run_project
    by (cases "compileAndRun_swc project_env default_options (new_SwcRunner, ready_world)";
        cases "fst (compileAndRun_swc project_env default_options (new_SwcRunner, ready_world))")
       auto
  obtain c2 r2' w2' where b:
    "compileAndRun_esbuild project_esbuild_env default_options (new_EsbuildRunner, ready_world)
       = (Inr c2, r2', w2')"
    using esbuild_run_project
    by (cases "compileAndRun_esbuild project_esbuild_env default_options
                 (new_EsbuildRunner, ready_world)";
        cases "fst (compileAndRun_esbuild project_esbuild_env default_options
                 (new_EsbuildRunner, ready_world))")
       auto
  show ?thesis
    using a b sandbox_tokens_exact [of project_env default_options "(new_SwcRunner, ready_world)"
        c r' w' project_esbuild_env "(new_EsbuildRunner, ready_world)" c2 r2' w2']
    by blast
qed

section \<open>Dependency discovery goes one level deep\<close>

text \<open>
  Claim C2, evaluated on the project where \<^verbatim>\<open>@/entry\<close> imports \<^verbatim>\<open>@/a\<close> and
  \<^verbatim>\<open>@/a\<close> imports \<^verbatim>\<open>@/b\<close>: \<^verbatim>\<open>compile\<close> succeeds, the cached text of
  \<^verbatim>\<open>@/a\<close> has the alias import \<^verbatim>\<open>@/b\<close>, yet only the entry and \<^verbatim>\<open>@/a\<close> are
  fetched and only their two keys are in the module map. \<^verbatim>\<open>loadAndTransformFile\<close> does
  not look at the imports of the file it loads, and \<^verbatim>\<open>transformDependencies\<close> is called
  on the entry alone.
\<close>

theorem swc_compile_skips_import_of_import:
  "(case compile_swc project_env default_options (new_SwcRunner, ready_world) of
      (Inr res, r, w) \<Rightarrow>
         map_of (transformedFiles r) ''@/a'' = Some ''import b from \"@/b\"''
       \<and> extractImports ''import b from \"@/b\"'' = [''@/b'']
       \<and> map fst (fetches w) = [''@/entry'', ''@/a'']
       \<and> map fst (moduleMap res) = [''/src/entry.js'', ''/src/a.js'']
    | (Inl err, r, w) \<Rightarrow> False)"
  by code_simp

section \<open>Entry failures abort, dependency failures are skipped\<close>

text \<open>
  Claim C3. Take a \<^verbatim>\<open>compile\<close> of an initialised SwcRunner, the engine module being
  loaded. If the entry is not served
  from the cache and \<^verbatim>\<open>fetchSourceFile\<close> fails for it, or the engine's \<^verbatim>\<open>transformSync\<close>
  fails on its text, \<^verbatim>\<open>compile\<close> rejects with the value that was thrown. If the entry is
  served from the cache, or is fetched and transformed, \<^verbatim>\<open>compile\<close> returns a build
  result whatever happens to the dependencies; its module map is assembled from the
  transformed-module cache, and for every import discovered in the entry that is not
  cached and for which \<^verbatim>\<open>fetchSourceFile\<close> or \<^verbatim>\<open>transformSync\<close> fails, this compile has put
  the warning \<^verbatim>\<open>[swc] Could not transform dependency ...\<close> on the console, with the
  \<^verbatim>\<open>message\<close> of what was thrown (\<^verbatim>\<open>undefined\<close> when a bare string was thrown), and the
  dependency is absent from that cache.
\<close>

theorem swc_compile_failure_policy:
  assumes run: "compile_swc e opts (r, w) = (res, r', w')"
      and init: "swc_initialized w" and engine: "swc w"
  shows "(map_of (consulted opts r) (entryPoint opts) = None
          \<and> (fetchSourceFile e (entryPoint opts) (baseUrl opts) = Inl x
             \<or> (\<exists>fd. fetchSourceFile e (entryPoint opts) (baseUrl opts) = Inr fd
                    \<and> transformSync e (contents fd) (entryPoint opts) = Inl x))
          \<longrightarrow> res = Inl (Thrown x))
       \<and> (map_of (consulted opts r) (entryPoint opts) = Some t
          \<or> (map_of (consulted opts r) (entryPoint opts) = None
             \<and> (\<exists>fd. fetchSourceFile e (entryPoint opts) (baseUrl opts) = Inr fd
                    \<and> transformSync e (contents fd) (entryPoint opts) = Inr t))
          \<longrightarrow> (\<exists>c. res = Inr c
                  \<and> moduleMap c = fold (\<lambda>(path, c). AList.update (entryPathResolved path)
                                                       (resolveImports c path))
                                    (transformedFiles r')
                                    [(entryPathResolved (entryPoint opts),
                                      resolveImports t (entryPoint opts))])
              \<and> (\<forall>d\<in>set (extractImports t). \<forall>y.
                    map_of (consulted opts r) d = None
                    \<and> (fetchSourceFile e d (baseUrl opts) = Inl y
                       \<or> (\<exists>fd. fetchSourceFile e d (baseUrl opts) = Inr fd
                              \<and> transformSync e (contents fd) d = Inl y))
                    \<longrightarrow> map_of (transformedFiles r') d = None
                        \<and> (\<exists>ls. console w' = console w @ ls
                                \<and> dependency_warning d (Thrown y) \<in> set ls)))"
proof -
  define r0 where "r0 = (if clearCache opts then r\<lparr>fileCache := [], transformedFiles := []\<rparr> else r)"
  define w0 where "w0 = log LogL [Text (''[swc] Building: '' @ entryPoint opts)] w"
  have sw0: "swc w0" using engine by (simp add: w0_def log_def)
  have c0: "console w0 = console w @ [(LogL, [Text (''[swc] Building: '' @ entryPoint opts)])]"
    by (simp add: w0_def log_def)
  have cache0: "transformedFiles r0 = consulted opts r" by (simp add: r0_def consulted_def)
  obtain res1 r1 w1 where l:
    "loadAndTransformFile e (entryPoint opts) (baseUrl opts) (r0, w0) = (res1, r1, w1)"
    by (cases "loadAndTransformFile e (entryPoint opts) (baseUrl opts) (r0, w0)") auto
  have sw1: "swc w1" using load_frame(1) [OF l] sw0 by simp
  from load_console_grows [OF l] obtain ls1 where c1: "console w1 = console w0 @ ls1" by blast
  have failing: "res = Inl (Thrown x)"
    if unc: "map_of (consulted opts r) (entryPoint opts) = None"
      and bad: "fetchSourceFile e (entryPoint opts) (baseUrl opts) = Inl x
             \<or> (\<exists>fd. fetchSourceFile e (entryPoint opts) (baseUrl opts) = Inr fd
                    \<and> transformSync e (contents fd) (entryPoint opts) = Inl x)"
  proof -
    from unc have "map_of (transformedFiles r0) (entryPoint opts) = None" by (simp add: cache0)
    from load_failure [OF this sw0 bad] l have "res1 = Inl (Thrown x)" by auto
    with run init l [unfolded r0_def w0_def] show ?thesis
      by (simp add: compile_swc_def Let_def split del: if_split)
  qed
  have passing: "(\<exists>c. res = Inr c
                  \<and> moduleMap c = fold (\<lambda>(path, c). AList.update (entryPathResolved path)
                                                       (resolveImports c path))
                                    (transformedFiles r')
                                    [(entryPathResolved (entryPoint opts),
                                      resolveImports t (entryPoint opts))])
              \<and> (\<forall>d\<in>set (extractImports t). \<forall>y.
                    map_of (consulted opts r) d = None
                    \<and> (fetchSourceFile e d (baseUrl opts) = Inl y
                       \<or> (\<exists>fd. fetchSourceFile e d (baseUrl opts) = Inr fd
                              \<and> transformSync e (contents fd) d = Inl y))
                    \<longrightarrow> map_of (transformedFiles r') d = None
                        \<and> (\<exists>ls. console w' = console w @ ls
                                \<and> dependency_warning d (Thrown y) \<in> set ls))"
    if good: "map_of (consulted opts r) (entryPoint opts) = Some t
          \<or> (map_of (consulted opts r) (entryPoint opts) = None
             \<and> (\<exists>fd. fetchSourceFile e (entryPoint opts) (baseUrl opts) = Inr fd
                    \<and> transformSync e (contents fd) (entryPoint opts) = Inr t))"
  proof -
    have res1: "res1 = Inr t"
    proof -
      from good show ?thesis
      proof
        assume "map_of (consulted opts r) (entryPoint opts) = Some t"
        then have "map_of (transformedFiles r0) (entryPoint opts) = Some t" by (simp add: cache0)
        from load_cached [OF this, of e "baseUrl opts" w0] l show ?thesis by simp
      next
        assume a: "map_of (consulted opts r) (entryPoint opts) = None
             \<and> (\<exists>fd. fetchSourceFile e (entryPoint opts) (baseUrl opts) = Inr fd
                    \<and> transformSync e (contents fd) (entryPoint opts) = Inr t)"
        then have unc: "map_of (transformedFiles r0) (entryPoint opts) = None"
          by (simp add: cache0)
        from a obtain fd where "fetchSourceFile e (entryPoint opts) (baseUrl opts) = Inr fd"
          and "transformSync e (contents fd) (entryPoint opts) = Inr t" by blast
        from load_success [OF unc sw0 this] l show ?thesis by auto
      qed
    qed
    with l have l': "loadAndTransformFile e (entryPoint opts) (baseUrl opts) (r0, w0)
        = (Inr t, r1, w1)" by simp
    obtain r2 w2 where deps: "loadEach e (extractImports t) (baseUrl opts) (r1, w1) = (r2, w2)"
      by (cases "loadEach e (extractImports t) (baseUrl opts) (r1, w1)") auto
    have fin: "r' = r2 \<and> (\<exists>l2. console w' = console w2 @ l2)
        \<and> (\<exists>c. res = Inr c
              \<and> moduleMap c = fold (\<lambda>(path, c). AList.update (entryPathResolved path)
                                                   (resolveImports c path))
                                (transformedFiles r2)
                                [(entryPathResolved (entryPoint opts),
                                  resolveImports t (entryPoint opts))])"
      using run init l' [unfolded r0_def w0_def] deps
      by (auto simp: compile_swc_def transformDependencies_def Let_def log_def
               split del: if_split)
    then obtain l2 where r2: "r' = r2" and c2: "console w' = console w2 @ l2" by blast
    have entry_cached: "map_of (transformedFiles r1) (entryPoint opts) = Some t"
      using load_success_cache [OF l'] by simp
    have "map_of (transformedFiles r') d = None
          \<and> (\<exists>ls. console w' = console w @ ls \<and> dependency_warning d (Thrown y) \<in> set ls)"
      if d: "d \<in> set (extractImports t)"
        and dunc: "map_of (consulted opts r) d = None"
        and bad: "fetchSourceFile e d (baseUrl opts) = Inl y
                  \<or> (\<exists>fd. fetchSourceFile e d (baseUrl opts) = Inr fd
                         \<and> transformSync e (contents fd) d = Inl y)" for d y
    proof -
      from dunc have u0: "map_of (transformedFiles r0) d = None" by (simp add: cache0)
      have ne: "d \<noteq> entryPoint opts"
      proof
        assume eq: "d = entryPoint opts"
        from load_failure [OF u0 sw0 bad] l' eq show False by auto
      qed
      from load_other_key [OF l ne] u0 have u1: "map_of (transformedFiles r1) d = None" by simp
      from loadEach_failed_dep [OF deps distinct_extractImports d u1 sw1 bad]
      obtain ls3 where c3: "console w2 = console w1 @ ls3"
        and inn: "dependency_warning d (Thrown y) \<in> set ls3"
        and none: "map_of (transformedFiles r2) d = None" by blast
      from c0 c1 c2 c3 have "console w' = console w
          @ ([(LogL, [Text (''[swc] Building: '' @ entryPoint opts)])] @ ls1 @ ls3 @ l2)"
        by simp
      with inn have "\<exists>ls. console w' = console w @ ls \<and> dependency_warning d (Thrown y) \<in> set ls"
        by (intro exI [of _ "[(LogL, [Text (''[swc] Building: '' @ entryPoint opts)])] @ ls1 @ ls3 @ l2"])
           simp
      with none r2 show ?thesis by simp
    qed
    then have skipped: "\<forall>d\<in>set (extractImports t). \<forall>y.
                    map_of (consulted opts r) d = None
                    \<and> (fetchSourceFile e d (baseUrl opts) = Inl y
                       \<or> (\<exists>fd. fetchSourceFile e d (baseUrl opts) = Inr fd
                              \<and> transformSync e (contents fd) d = Inl y))
                    \<longrightarrow> map_of (transformedFiles r') d = None
                        \<and> (\<exists>ls. console w' = console w @ ls
                                \<and> dependency_warning d (Thrown y) \<in> set ls)"
      by blast
    from fin r2 have built: "\<exists>c. res = Inr c
                  \<and> moduleMap c = fold (\<lambda>(path, c). AList.update (entryPathResolved path)
                                                       (resolveImports c path))
                                    (transformedFiles r')
                                    [(entryPathResolved (entryPoint opts),
                                      resolveImports t (entryPoint opts))]"
      by simp
    from built skipped show ?thesis by (rule conjI)
  qed
  from failing passing show ?thesis by blast
qed

theorem swc_compile_failure_policy_witness:
  "fst (compile_swc project_env (default_options\<lparr>entryPoint := ''@/garbled''\<rparr>)
         (new_SwcRunner, ready_world)) = Inl (Thrown (Bare ''Syntax Error''))
   \<and> isl (fst (compile_swc project_env (default_options\<lparr>entryPoint := ''@/uses-garbled''\<rparr>)
                 (new_SwcRunner, ready_world))) = False
   \<and> map_of (transformedFiles (fst (snd (compile_swc project_env
          (default_options\<lparr>entryPoint := ''@/uses-garbled''\<rparr>) (new_SwcRunner, ready_world)))))
        ''@/garbled'' = None
   \<and> (WarnL, [Text ''[swc] Could not transform dependency @/garbled:'', Undefined])
        \<in> set (console (snd (snd (compile_swc project_env
              (default_options\<lparr>entryPoint := ''@/uses-garbled''\<rparr>) (new_SwcRunner, ready_world)))))"
proof -
  let ?o1 = "default_options\<lparr>entryPoint := ''@/garbled''\<rparr>"
  let ?o2 = "default_options\<lparr>entryPoint := ''@/uses-garbled''\<rparr>"
  let ?X = "compile_swc project_env ?o1 (new_SwcRunner, ready_world)"
  let ?Y = "compile_swc project_env ?o2 (new_SwcRunner, ready_world)"
  have init: "swc_initialized ready_world" and engine: "swc ready_world"
    by (simp_all add: ready_world_def)
  have base: "baseUrl ?o1 = ''/src''" "baseUrl ?o2 = ''/src''"
    "entryPoint ?o1 = ''@/garbled''" "entryPoint ?o2 = ''@/uses-garbled''"
    by (simp_all add: default_options_def)
  have empty: "consulted ?o1 new_SwcRunner = []" "consulted ?o2 new_SwcRunner = []"
    by (simp_all add: consulted_def new_SwcRunner_def)
  have runX: "?X = (fst ?X, fst (snd ?X), snd (snd ?X))" by simp
  have runY: "?Y = (fst ?Y, fst (snd ?Y), snd (snd ?Y))" by simp
  from swc_compile_failure_policy [OF runX init engine, of "Bare ''Syntax Error''"]
    garbled_fetch garbled_transform
  have first: "fst ?X = Inl (Thrown (Bare ''Syntax Error''))"
    by (simp add: base empty)
  have loads: "map_of (consulted ?o2 new_SwcRunner) (entryPoint ?o2)
                 = Some ''import g from \"@/garbled\"''
          \<or> (map_of (consulted ?o2 new_SwcRunner) (entryPoint ?o2) = None
             \<and> (\<exists>fd. fetchSourceFile project_env (entryPoint ?o2) (baseUrl ?o2) = Inr fd
                    \<and> transformSync project_env (contents fd) (entryPoint ?o2)
                        = Inr ''import g from \"@/garbled\"''))"
    using uses_garbled_fetch uses_garbled_transform by (simp add: base empty)
  note built = swc_compile_failure_policy [OF runY init engine,
      of _ "''import g from \"@/garbled\"''", THEN conjunct2, THEN mp, OF loads]
  from built [THEN conjunct1] have ok: "isl (fst ?Y) = False" by auto
  have dep: "''@/garbled'' \<in> set (extractImports ''import g from \"@/garbled\"'')"
    by (simp add: imports_of_uses_garbled)
  have fails: "map_of (consulted ?o2 new_SwcRunner) ''@/garbled'' = None
       \<and> (fetchSourceFile project_env ''@/garbled'' (baseUrl ?o2) = Inl (Bare ''Syntax Error'')
          \<or> (\<exists>fd. fetchSourceFile project_env ''@/garbled'' (baseUrl ?o2) = Inr fd
                 \<and> transformSync project_env (contents fd) ''@/garbled''
                     = Inl (Bare ''Syntax Error'')))"
    using garbled_fetch garbled_transform by (simp add: base empty)
  note skip = built [THEN conjunct2, THEN bspec, OF dep, THEN spec,
      of "Bare ''Syntax Error''", THEN mp, OF fails]
  from skip have skipped: "map_of (transformedFiles (fst (snd ?Y))) ''@/garbled'' = None"
    and warned: "dependency_warning ''@/garbled'' (Thrown (Bare ''Syntax Error''))
                  \<in> set (console (snd (snd ?Y)))"
    by auto
  have "dependency_warning ''@/garbled'' (Thrown (Bare ''Syntax Error''))
        = (WarnL, [Text ''[swc] Could not transform dependency @/garbled:'', Undefined])"
    by (simp add: dependency_warning_def message_arg_def)
  with warned first ok skipped show ?thesis by simp
qed

section \<open>The entry runs after the preloads\<close>




section \<open>Resolving an alias-rooted specifier\<close>




section \<open>Resolving a relative specifier\<close>

text \<open>
  Claim C6, as stated, fails. From the importer \<^verbatim>\<open>/src/components/a.js\<close> the specifier
  \<^verbatim>\<open>../../../x\<close> climbs past the root; the resolve hook does not reject it but resolves
  it to \<^verbatim>\<open>/x\<close>.
\<close>

theorem relative_past_root_not_rejected:
  "onResolve ''../../../x'' ''virtual'' ''/src/components/a.js'' = Virtual ''/x''"
  by code_simp

text \<open>
  Claim C6, amended. In the virtual namespace the resolve hook of EsbuildRunner resolves a
  specifier that starts with \<^verbatim>\<open>./\<close> or \<^verbatim>\<open>../\<close> against the directory of the importer:
  \<^verbatim>\<open>./x\<close> from \<^verbatim>\<open>/src/components/a.js\<close> gives \<^verbatim>\<open>/src/components/x\<close> and
  \<^verbatim>\<open>../x\<close> gives \<^verbatim>\<open>/src/x\<close>, the hook adding no extension. Each \<^verbatim>\<open>..\<close> removes the
  nearest segment kept before it; where none is left it removes nothing. Every such
  specifier gets a path: none is rejected.
\<close>

theorem relative_resolution:
  "onResolve ''./x'' ''virtual'' ''/src/components/a.js'' = Virtual ''/src/components/x''
   \<and> onResolve ''../x'' ''virtual'' ''/src/components/a.js'' = Virtual ''/src/x''
   \<and> collapse (parts @ [''..'']) result = butlast (collapse parts result)
   \<and> collapse [''..''] [] = []
   \<and> (startsWith p ''./'' \<or> startsWith p ''../'' \<longrightarrow>
        onResolve p ''virtual'' importer
          = Virtual (normalizePath (substring0 importer (lastIndexOf importer CHR ''/'') @ ''/'' @ p)))"
proof -
  have a: "onResolve ''./x'' ''virtual'' ''/src/components/a.js'' = Virtual ''/src/components/x''"
    by code_simp
  have b: "onResolve ''../x'' ''virtual'' ''/src/components/a.js'' = Virtual ''/src/x''"
    by code_simp
  have c: "collapse (parts @ [''..'']) result = butlast (collapse parts result)"
    by (simp add: collapse_append)
  have d: "onResolve p ''virtual'' importer
          = Virtual (normalizePath (substring0 importer (lastIndexOf importer CHR ''/'') @ ''/'' @ p))"
    if h: "startsWith p ''./'' \<or> startsWith p ''../''"
  proof -
    from h have dot: "startsWith p ''.''"
      using startsWith_shorter [of p "''.''" "''/''"] startsWith_shorter [of p "''.''" "''./''"]
      by auto
    then have "\<not> isExternal p" by (rule not_external_dot)
    moreover from dot have "\<not> startsWith p ''@/''" by (cases p) (auto simp: startsWith_def)
    ultimately show ?thesis using h by (simp add: onResolve_def Let_def)
  qed
  from a b c d show ?thesis by simp
qed

theorem relative_resolution_witness:
  "startsWith ''../../../x'' ''../''
   \<and> onResolve ''../../../x'' ''virtual'' ''/src/components/a.js''
       = Virtual (normalizePath (substring0 ''/src/components/a.js''
                    (lastIndexOf ''/src/components/a.js'' CHR ''/'') @ ''/'' @ ''../../../x''))
   \<and> collapse ([''src'', ''components''] @ [''..'']) [] = butlast (collapse [''src'', ''components''] [])"
  using relative_resolution [of "[''src'', ''components'']" "[]" "''../../../x''" "''/src/components/a.js''"]
  by (simp add: startsWith_def)

section \<open>The import and export rewrites\<close>





section \<open>The caches are keyed by the specifier as written\<close>

text \<open>
  Claim C8, as stated, fails. In the project where \<^verbatim>\<open>@/twice\<close> imports the same file as
  \<^verbatim>\<open>@/x\<close> and as \<^verbatim>\<open>@/x.js\<close>, one \<^verbatim>\<open>compile\<close> fetches and transforms both
  specifiers and keeps two entries in the transformed-module cache, although both
  specifiers have the same registry key and the same rewritten import target
  \<^verbatim>\<open>/src/x.js\<close>.
\<close>

theorem swc_same_path_loaded_twice:
  "map fst (fetches (snd (snd (compile_swc project_env (default_options\<lparr>entryPoint := ''@/twice''\<rparr>)
       (new_SwcRunner, ready_world))))) = [''@/twice'', ''@/x'', ''@/x.js'']
   \<and> transforms (snd (snd (compile_swc project_env (default_options\<lparr>entryPoint := ''@/twice''\<rparr>)
       (new_SwcRunner, ready_world)))) = [''@/twice'', ''@/x'', ''@/x.js'']
   \<and> map fst (transformedFiles (fst (snd (compile_swc project_env
       (default_options\<lparr>entryPoint := ''@/twice''\<rparr>) (new_SwcRunner, ready_world)))))
        = [''@/twice'', ''@/x'', ''@/x.js'']
   \<and> entryPathResolved ''@/x'' = ''/src/x.js'' \<and> entryPathResolved ''@/x.js'' = ''/src/x.js''
   \<and> resolvedPath ''@/x'' = ''/src/x.js'' \<and> resolvedPath ''@/x.js'' = ''/src/x.js''"
  by code_simp

text \<open>
  Claim C8, amended. Within one \<^verbatim>\<open>compile\<close> of SwcRunner, successful or not, every
  specifier (the string as written) is fetched at most once and transformed at most once,
  and the module map returned has one entry per registry key.
\<close>

theorem swc_each_specifier_loaded_once:
  assumes "compile_swc e opts (r, w) = (res, r', w')"
  shows "\<exists>fs ts. fetches w' = fetches w @ map (\<lambda>p. (p, baseUrl opts)) fs \<and> distinct fs
           \<and> transforms w' = transforms w @ ts \<and> distinct ts
           \<and> (\<forall>out. res = Inr out \<longrightarrow> distinct (map fst (moduleMap out)))"
proof (cases "swc_initialized w")
  case False
  with assms have "w' = w" and "\<exists>err. res = Inl err" by (auto simp: compile_swc_def)
  then show ?thesis by auto
next
  case True
  define r0 where "r0 = (if clearCache opts then r\<lparr>fileCache := [], transformedFiles := []\<rparr> else r)"
  define w0 where "w0 = log LogL [Text (''[swc] Building: '' @ entryPoint opts)] w"
  have f0: "fetches w0 = fetches w" and t0: "transforms w0 = transforms w"
    by (simp_all add: w0_def log_def)
  obtain res1 r1 w1 where l:
    "loadAndTransformFile e (entryPoint opts) (baseUrl opts) (r0, w0) = (res1, r1, w1)"
    by (cases "loadAndTransformFile e (entryPoint opts) (baseUrl opts) (r0, w0)") auto
  define fs1 where "fs1 = (if map_of (transformedFiles r0) (entryPoint opts) = None
                           then [entryPoint opts] else [])"
  have f1: "fetches w1 = fetches w @ map (\<lambda>p. (p, baseUrl opts)) fs1"
    using load_fetches [OF l] f0 by (simp add: fs1_def)
  from load_transforms [OF l] t0 obtain ts1 where t1: "transforms w1 = transforms w @ ts1"
    and len: "length ts1 \<le> 1" and sub1: "set ts1 \<subseteq> {entryPoint opts}" by auto
  from len have d1: "distinct ts1" by (cases ts1) auto
  show ?thesis
  proof (cases res1)
    case (Inl err)
    with assms True l [unfolded r0_def w0_def]
    have "res = Inl err" and "fetches w' = fetches w1" and "transforms w' = transforms w1"
      by (auto simp: compile_swc_def Let_def log_def split del: if_split)
    with f1 t1 d1 have "fetches w' = fetches w @ map (\<lambda>p. (p, baseUrl opts)) fs1 \<and> distinct fs1
           \<and> transforms w' = transforms w @ ts1 \<and> distinct ts1
           \<and> (\<forall>out. res = Inr out \<longrightarrow> distinct (map fst (moduleMap out)))"
      by (simp add: fs1_def)
    then show ?thesis by blast
  next
    case (Inr t)
    obtain r2 w2 where deps: "loadEach e (extractImports t) (baseUrl opts) (r1, w1) = (r2, w2)"
      by (cases "loadEach e (extractImports t) (baseUrl opts) (r1, w1)") auto
    from l Inr have l': "loadAndTransformFile e (entryPoint opts) (baseUrl opts) (r0, w0)
        = (Inr t, r1, w1)" by simp
    have fin: "fetches w' = fetches w2 \<and> transforms w' = transforms w2
             \<and> (\<forall>out. res = Inr out \<longrightarrow> distinct (map fst (moduleMap out)))"
      using assms True l' [unfolded r0_def w0_def] deps
      by (auto simp: compile_swc_def transformDependencies_def Let_def log_def
                     moduleMap_keys_distinct split del: if_split)
    define fs2 where "fs2 = filter (\<lambda>d. map_of (transformedFiles r1) d = None) (extractImports t)"
    have f2: "fetches w2 = fetches w1 @ map (\<lambda>d. (d, baseUrl opts)) fs2"
      using loadEach_fetches [OF deps distinct_extractImports] by (simp add: fs2_def)
    from loadEach_transforms [OF deps distinct_extractImports]
    obtain ts2 where t2: "transforms w2 = transforms w1 @ ts2" and d2: "distinct ts2"
      and sub2: "set ts2 \<subseteq> {d \<in> set (extractImports t). map_of (transformedFiles r1) d = None}"
      by blast
    have cached: "map_of (transformedFiles r1) (entryPoint opts) = Some t"
      using load_success_cache [OF l'] by simp
    have "distinct fs2" by (simp add: fs2_def distinct_extractImports)
    moreover have "entryPoint opts \<notin> set fs2" using cached by (simp add: fs2_def)
    ultimately have dfs: "distinct (fs1 @ fs2)" by (auto simp: fs1_def)
    have "entryPoint opts \<notin> set ts2" using sub2 cached by auto
    with d1 d2 sub1 have dts: "distinct (ts1 @ ts2)" by auto
    have "fetches w' = fetches w @ map (\<lambda>p. (p, baseUrl opts)) (fs1 @ fs2)"
      using fin f1 f2 by simp
    moreover have "transforms w' = transforms w @ (ts1 @ ts2)" using fin t1 t2 by simp
    ultimately show ?thesis using dfs dts fin by blast
  qed
qed

theorem swc_each_specifier_loaded_once_witness:
  "\<exists>fs ts.
      fetches (snd (snd (compile_swc project_env (default_options\<lparr>entryPoint := ''@/twice''\<rparr>)
                 (new_SwcRunner, ready_world))))
        = fetches ready_world @ map (\<lambda>p. (p, ''/src'')) fs \<and> distinct fs
    \<and> transforms (snd (snd (compile_swc project_env (default_options\<lparr>entryPoint := ''@/twice''\<rparr>)
                 (new_SwcRunner, ready_world))))
        = transforms ready_world @ ts \<and> distinct ts
    \<and> (\<forall>out. fst (compile_swc project_env (default_options\<lparr>entryPoint := ''@/twice''\<rparr>)
                 (new_SwcRunner, ready_world)) = Inr out
           \<longrightarrow> distinct (map fst (moduleMap out)))"
  using swc_each_specifier_loaded_once [of project_env "default_options\<lparr>entryPoint := ''@/twice''\<rparr>"
      new_SwcRunner ready_world
      "fst (compile_swc project_env (default_options\<lparr>entryPoint := ''@/twice''\<rparr>)
                 (new_SwcRunner, ready_world))"
      "fst (snd (compile_swc project_env (default_options\<lparr>entryPoint := ''@/twice''\<rparr>)
                 (new_SwcRunner, ready_world)))"
      "snd (snd (compile_swc project_env (default_options\<lparr>entryPoint := ''@/twice''\<rparr>)
                 (new_SwcRunner, ready_world)))"]
  by (simp add: default_options_def)

section \<open>What a second compile fetches\<close>

text \<open>
  Claim C9, as stated, fails. In the project where \<^verbatim>\<open>@/broken\<close> imports \<^verbatim>\<open>@/missing\<close>,
  the first \<^verbatim>\<open>compile\<close> on a new SwcRunner succeeds after fetching the entry and trying
  \<^verbatim>\<open>@/missing\<close>; the second \<^verbatim>\<open>compile\<close> on the same instance, with the same options
  (\<^verbatim>\<open>clearCache\<close> false) and the same sources, fetches \<^verbatim>\<open>@/missing\<close> once more. A load
  that failed leaves nothing in the cache.
\<close>

theorem swc_failed_import_fetched_again:
  "map fst (fetches (snd (snd (compile_swc project_env (default_options\<lparr>entryPoint := ''@/broken''\<rparr>)
       (new_SwcRunner, ready_world))))) = [''@/broken'', ''@/missing'']
   \<and> isl (fst (compile_swc project_env (default_options\<lparr>entryPoint := ''@/broken''\<rparr>)
       (new_SwcRunner, ready_world))) = False
   \<and> map fst (fetches (snd (snd (compile_swc project_env (default_options\<lparr>entryPoint := ''@/broken''\<rparr>)
       (snd (compile_swc project_env (default_options\<lparr>entryPoint := ''@/broken''\<rparr>)
          (new_SwcRunner, ready_world)))))))
       = [''@/broken'', ''@/missing'', ''@/missing'']"
  by code_simp

text \<open>
  Claim C9, amended. If a \<^verbatim>\<open>compile\<close> on a SwcRunner succeeded and left every alias import
  discovered in the entry in the transformed-module cache, then \<^verbatim>\<open>compile\<close> again on that
  instance with \<^verbatim>\<open>clearCache\<close> false and the same collaborators returns the same build
  result, leaves the caches as they are, and performs no fetch and no transform. With
  \<^verbatim>\<open>clearCache\<close> true an initialised runner of either kind compiles as a new instance
  would: what was cached is not consulted. Without the flag every entry of the
  transformed-module cache and every key of the file cache survives the compile. The load
  hook of EsbuildRunner serves a cached path from the cache, without a fetch and without
  changing any state.
\<close>

theorem caches_across_compiles:
  "(compile_swc e opts (r, w) = (Inr res, r1, w1)
      \<and> (\<forall>t. map_of (transformedFiles r1) (entryPoint opts) = Some t \<longrightarrow>
             (\<forall>d\<in>set (extractImports t). map_of (transformedFiles r1) d \<noteq> None))
      \<longrightarrow> (\<exists>w2. compile_swc e (opts\<lparr>clearCache := False\<rparr>) (r1, w1) = (Inr res, r1, w2)
                \<and> fetches w2 = fetches w1 \<and> transforms w2 = transforms w1))
   \<and> (swc_initialized w \<and> clearCache opts \<longrightarrow>
        compile_swc e opts (r, w) = compile_swc e opts (new_SwcRunner, w))
   \<and> (\<not> clearCache opts \<and> compile_swc e opts (r, w) = (res', r', w') \<longrightarrow>
        (\<forall>p t. map_of (transformedFiles r) p = Some t \<longrightarrow> map_of (transformedFiles r') p = Some t)
        \<and> fst ` set (fileCache r) \<subseteq> fst ` set (fileCache r'))
   \<and> (map_of (fileCache_e q) p = Some fd \<longrightarrow>
        onLoad fetch base p (q, w) = (Loaded (contents fd) (loader fd), q, w))
   \<and> (esbuild_initialized w \<and> clearCache opts \<longrightarrow>
        compile_esbuild b opts (q, w) = compile_esbuild b opts (new_EsbuildRunner, w))"
proof -
  have second: "\<exists>w2. compile_swc e (opts\<lparr>clearCache := False\<rparr>) (r1, w1) = (Inr res, r1, w2)
                \<and> fetches w2 = fetches w1 \<and> transforms w2 = transforms w1"
    if first: "compile_swc e opts (r, w) = (Inr res, r1, w1)"
      and all: "\<forall>t. map_of (transformedFiles r1) (entryPoint opts) = Some t \<longrightarrow>
             (\<forall>d\<in>set (extractImports t). map_of (transformedFiles r1) d \<noteq> None)"
  proof -
    from compile_swc_success [OF first] obtain t where init: "swc_initialized w1"
      and entry: "map_of (transformedFiles r1) (entryPoint (opts\<lparr>clearCache := False\<rparr>)) = Some t"
      and res: "res = \<lparr>code = resolveImports t (entryPoint opts),
                     moduleMap = fold (\<lambda>(path, c). AList.update (entryPathResolved path)
                                                      (resolveImports c path))
                                   (transformedFiles r1)
                                   [(entryPathResolved (entryPoint opts),
                                     resolveImports t (entryPoint opts))],
                     entryPoint_out = entryPathResolved (entryPoint opts), warnings = []\<rparr>"
      by auto
    from all entry have deps: "\<forall>d\<in>set (extractImports t). map_of (transformedFiles r1) d \<noteq> None"
      by simp
    have keep: "\<not> clearCache (opts\<lparr>clearCache := False\<rparr>)" by simp
    from compile_swc_all_cached [OF init keep entry deps, of e] res show ?thesis by simp
  qed
  have cleared: "compile_swc e opts (r, w) = compile_swc e opts (new_SwcRunner, w)"
    if "swc_initialized w" and "clearCache opts"
  proof -
    have "x\<lparr>fileCache := [], transformedFiles := []\<rparr> = new_SwcRunner" for x :: swc_runner
      by (cases x) (simp add: new_SwcRunner_def)
    with that show ?thesis by (simp add: compile_swc_def)
  qed
  have cleared_e: "compile_esbuild b opts (q, w) = compile_esbuild b opts (new_EsbuildRunner, w)"
    if "esbuild_initialized w" and "clearCache opts"
  proof -
    have "x\<lparr>fileCache_e := []\<rparr> = new_EsbuildRunner" for x :: esbuild_runner
      by (cases x) (simp add: new_EsbuildRunner_def)
    with that show ?thesis by (simp add: compile_esbuild_def)
  qed
  from second cleared cleared_e compile_swc_keeps [of e opts r w res' r' w']
    onLoad_cached [of q p fd fetch base w]
  show ?thesis by blast
qed

theorem caches_across_compiles_witness:
  "(\<exists>w2. compile_swc project_env (default_options\<lparr>clearCache := False\<rparr>)
            (snd (compile_swc project_env default_options (new_SwcRunner, ready_world)))
          = (fst (compile_swc project_env default_options (new_SwcRunner, ready_world)),
             fst (snd (compile_swc project_env default_options (new_SwcRunner, ready_world))), w2)
        \<and> fetches w2
            = fetches (snd (snd (compile_swc project_env default_options (new_SwcRunner, ready_world))))
        \<and> transforms w2
            = transforms (snd (snd (compile_swc project_env default_options (new_SwcRunner, ready_world)))))
   \<and> compile_swc project_env (default_options\<lparr>clearCache := True\<rparr>) (stale_runner, ready_world)
       = compile_swc project_env (default_options\<lparr>clearCache := True\<rparr>) (new_SwcRunner, ready_world)
   \<and> map_of (transformedFiles (fst (snd (compile_swc project_env default_options
         (stale_runner, ready_world))))) ''@/entry'' = Some ''stale''
   \<and> onLoad project_fetch ''/src'' ''@/entry'' (warm_esbuild, ready_world)
       = (Loaded ''x'' ''js'', warm_esbuild, ready_world)
   \<and> compile_esbuild project_esbuild_env (default_options\<lparr>clearCache := True\<rparr>)
         (warm_esbuild, ready_world)
       = compile_esbuild project_esbuild_env (default_options\<lparr>clearCache := True\<rparr>)
         (new_EsbuildRunner, ready_world)"
proof -
  let ?C = "compile_swc project_env default_options (new_SwcRunner, ready_world)"
  let ?S = "compile_swc project_env default_options (stale_runner, ready_world)"
  from first_compile_ok obtain res where res: "fst ?C = Inr res"
    by (cases "fst ?C") auto
  then have first: "?C = (Inr res, fst (snd ?C), snd (snd ?C))"
    by (metis prod.collapse)
  have all: "\<forall>t. map_of (transformedFiles (fst (snd ?C))) (entryPoint default_options) = Some t \<longrightarrow>
             (\<forall>d\<in>set (extractImports t). map_of (transformedFiles (fst (snd ?C))) d \<noteq> None)"
    using first_compile_entry first_compile_dep imports_of_entry
    by (simp add: default_options_def)
  have one: "\<exists>w2. compile_swc project_env (default_options\<lparr>clearCache := False\<rparr>) (snd ?C)
          = (fst ?C, fst (snd ?C), w2)
        \<and> fetches w2 = fetches (snd (snd ?C)) \<and> transforms w2 = transforms (snd (snd ?C))"
    using caches_across_compiles [of project_env default_options new_SwcRunner ready_world res
        "fst (snd ?C)" "snd (snd ?C)"] first all res
    by simp
  have init: "swc_initialized ready_world" "esbuild_initialized ready_world"
    by (simp_all add: ready_world_def)
  have two: "compile_swc project_env (default_options\<lparr>clearCache := True\<rparr>) (stale_runner, ready_world)
       = compile_swc project_env (default_options\<lparr>clearCache := True\<rparr>) (new_SwcRunner, ready_world)"
    and five: "compile_esbuild project_esbuild_env (default_options\<lparr>clearCache := True\<rparr>)
         (warm_esbuild, ready_world)
       = compile_esbuild project_esbuild_env (default_options\<lparr>clearCache := True\<rparr>)
         (new_EsbuildRunner, ready_world)"
    using caches_across_compiles [of project_env "default_options\<lparr>clearCache := True\<rparr>"
        stale_runner ready_world _ _ _ _ _ _ warm_esbuild _ _ _ _ project_esbuild_env] init
    by simp_all
  have stale: "map_of (transformedFiles stale_runner) ''@/entry'' = Some ''stale''"
    by (simp add: stale_runner_def)
  have warm: "map_of (fileCache_e warm_esbuild) ''@/entry'' = Some \<lparr>contents = ''x'', loader = ''js''\<rparr>"
    by (simp add: warm_esbuild_def)
  have keep: "\<not> clearCache default_options" by (simp add: default_options_def)
  have three: "map_of (transformedFiles (fst (snd ?S))) ''@/entry'' = Some ''stale''"
    and four: "onLoad project_fetch ''/src'' ''@/entry'' (warm_esbuild, ready_world)
       = (Loaded ''x'' ''js'', warm_esbuild, ready_world)"
    using caches_across_compiles [of project_env default_options stale_runner ready_world _ _ _
        "fst ?S" "fst (snd ?S)" "snd (snd ?S)" warm_esbuild "''@/entry''"
        "\<lparr>contents = ''x'', loader = ''js''\<rparr>" project_fetch "''/src''"] stale warm keep
    by simp_all
  from one two three four five show ?thesis by blast
qed

section \<open>The initialisation flag belongs to the module\<close>

lemma initialize_swc_sets_flag:
  "initialize_swc e w = (Inr (), w1) \<Longrightarrow> swc_initialized w1"
  by (auto simp: initialize_swc_def log_def Let_def split: if_splits sum.splits)

lemma initialize_esbuild_sets_flag:
  "initialize_esbuild b w = (Inr (), w1) \<Longrightarrow> esbuild_initialized w1"
  by (auto simp: initialize_esbuild_def log_def Let_def split: if_splits sum.splits)

text \<open>
  Claim C10. Once \<^verbatim>\<open>initialize\<close> has succeeded through one instance, \<^verbatim>\<open>initialize\<close>
  through any instance, with whatever engine outcome would be waiting, returns at once
  and changes nothing (no engine module is loaded again), and \<^verbatim>\<open>compile\<close> on any
  instance \<open>r\<close> never fails with the not-initialised error. This holds for SwcRunner and
  for EsbuildRunner, each with its own module-level flag.
\<close>

theorem initialized_flag_is_shared:
  "(initialize_swc e w = (Inr (), w1) \<longrightarrow>
      initialize_swc e' w1 = (Inr (), w1)
      \<and> (\<forall>m. fst (compile_swc e' opts (r, w1)) \<noteq> Inl (NotInitialized m)))
   \<and> (initialize_esbuild b w = (Inr (), w2) \<longrightarrow>
      initialize_esbuild b' w2 = (Inr (), w2)
      \<and> (\<forall>m. fst (compile_esbuild b' opts (r2, w2)) \<noteq> Inl (NotInitialized m)))"
proof -
  have swc_part: "initialize_swc e' w1 = (Inr (), w1)
      \<and> (\<forall>m. fst (compile_swc e' opts (r, w1)) \<noteq> Inl (NotInitialized m))"
    if h: "initialize_swc e w = (Inr (), w1)"
  proof -
    from h have init: "swc_initialized w1" by (rule initialize_swc_sets_flag)
    then have again: "initialize_swc e' w1 = (Inr (), w1)"
      by (simp add: initialize_swc_def)
    have "fst (compile_swc e' opts (r, w1)) \<noteq> Inl (NotInitialized m)" for m
      using init
      by (auto simp: compile_swc_def Let_def split: prod.splits sum.splits
               dest: load_error_thrown)
    with again show ?thesis by blast
  qed
  have esbuild_part: "initialize_esbuild b' w2 = (Inr (), w2)
      \<and> (\<forall>m. fst (compile_esbuild b' opts (r2, w2)) \<noteq> Inl (NotInitialized m))"
    if h: "initialize_esbuild b w = (Inr (), w2)"
  proof -
    from h have init: "esbuild_initialized w2" by (rule initialize_esbuild_sets_flag)
    then have again: "initialize_esbuild b' w2 = (Inr (), w2)"
      by (simp add: initialize_esbuild_def)
    have "fst (compile_esbuild b' opts (r2, w2)) \<noteq> Inl (NotInitialized m)" for m
      using init
      by (auto simp: compile_esbuild_def Let_def split: prod.splits sum.splits list.splits)
    with again show ?thesis by blast
  qed
  from swc_part esbuild_part show ?thesis by blast
qed

theorem initialized_flag_is_shared_witness:
  "initialize_swc project_env blank_world = (Inr (), snd (initialize_swc project_env blank_world))
   \<and> initialize_swc project_env (snd (initialize_swc project_env blank_world))
       = (Inr (), snd (initialize_swc project_env blank_world))
   \<and> (\<forall>m. fst (compile_swc project_env default_options
                   (new_SwcRunner, snd (initialize_swc project_env blank_world)))
            \<noteq> Inl (NotInitialized m))
   \<and> initialize_esbuild project_esbuild_env blank_world
       = (Inr (), snd (initialize_esbuild project_esbuild_env blank_world))
   \<and> initialize_esbuild project_esbuild_env (snd (initialize_esbuild project_esbuild_env blank_world))
       = (Inr (), snd (initialize_esbuild project_esbuild_env blank_world))
   \<and> (\<forall>m. fst (compile_esbuild project_esbuild_env default_options
                   (new_EsbuildRunner, snd (initialize_esbuild project_esbuild_env blank_world)))
            \<noteq> Inl (NotInitialized m))"
proof -
  have a: "initialize_swc project_env blank_world
             = (Inr (), snd (initialize_swc project_env blank_world))"
    by (simp add: initialize_swc_def project_env_def blank_world_def)
  have b: "initialize_esbuild project_esbuild_env blank_world
             = (Inr (), snd (initialize_esbuild project_esbuild_env blank_world))"
    by (simp add: initialize_esbuild_def project_esbuild_env_def blank_world_def)
  show ?thesis
    using a b
      initialized_flag_is_shared [of project_env blank_world
        "snd (initialize_swc project_env blank_world)" project_env default_options new_SwcRunner
        project_esbuild_env "snd (initialize_esbuild project_esbuild_env blank_world)"
        project_esbuild_env new_EsbuildRunner]
    by blast
qed

end
